theory Spec2Isabelle
  imports Complex_Main
begin

unbundle bit_operations_syntax

section \<open>Data model\<close>

text \<open>
  The pair style \<^verbatim>\<open>PairPHIN\<close> (pair\_phin.cpp) and the compute style
  \<^verbatim>\<open>ComputeNEQUIP\<close> turn the neighbour list of the host engine into the graph
  a learned model consumes, and scatter the model's answer back into the host's arrays.

  Conventions of the embedding.
  \<^item> A C++ \<^verbatim>\<open>double\<close> or \<^verbatim>\<open>float\<close> value is the real number it stands
    for. Every arithmetic operation on doubles that the code itself performs is the exact
    operation followed by the rounding \<open>f64\<close> to the nearest binary64 number, and every
    store of a double into a \<^verbatim>\<open>float\<close> tensor is the rounding \<open>f32\<close> to the nearest
    binary32 number, ties to even in both. Overflow to an infinity and NaN are outside
    the model. The entries of the cell matrix, and the inverse and the product that
    libtorch computes from them, are exact: their float arithmetic is internal to the
    library.
  \<^item> C++ \<^verbatim>\<open>int\<close>, \<^verbatim>\<open>tagint\<close> and \<^verbatim>\<open>int64_t\<close> values are
    mathematical integers. Every integer of the code that matters here is an array index,
    and an index outside its array is an error of the model before any wrap-around could
    be observed.
  \<^item> A read or write outside an array is undefined behaviour in C++; the model makes it
    the error \<open>OutOfBounds\<close>.
  \<^item> \<^verbatim>\<open>error->all\<close> ends the run: it is an error value, and the host state at that
    point is dropped.
  \<^item> \<^verbatim>\<open>assert\<close> is active: a failed assertion is the error \<open>AssertionFailed\<close>.
  \<^item> Debug printing is left out, and so are the reads of \<^verbatim>\<open>type[i]\<close> and
    \<^verbatim>\<open>type[j]\<close> in the edge loop, whose values are never used.
  \<^item> The run has one rank: the message of rank 0 is always logged.
\<close>

type_synonym vec3 = "real \<times> real \<times> real"
type_synonym mat3 = "vec3 \<times> vec3 \<times> vec3"

datatype error =
    RequiresAtomIDs
  | RequiresNewtonOff
  | NoEdgesDetected
  | PerAtomVirialUnsupported
  | AssertionFailed
  | OutOfBounds
  | SingularMatrix
  | MissingKey string
  | WrongRank
  | ModelFailed

text \<open>
  \<open>RequiresAtomIDs\<close>, \<open>RequiresNewtonOff\<close>, \<open>NoEdgesDetected\<close> and
  \<open>PerAtomVirialUnsupported\<close> are the four \<^verbatim>\<open>error->all\<close> calls of the pair style.
  \<open>AssertionFailed\<close> is a failed \<^verbatim>\<open>assert\<close>. \<open>SingularMatrix\<close>,
  \<open>MissingKey\<close>, \<open>WrongRank\<close> and \<open>ModelFailed\<close> are exceptions thrown inside
  libtorch: the inverse of a singular matrix, \<^verbatim>\<open>Dict::at\<close> on an absent key, an
  accessor of the wrong rank, a failing forward call.
\<close>

text \<open>
  The members of the host objects the code reads and writes: \<^verbatim>\<open>atom->...\<close>,
  \<^verbatim>\<open>force->newton_pair\<close>, \<^verbatim>\<open>list->...\<close>, \<^verbatim>\<open>domain->...\<close>, and the members of
  the style itself. \<open>NEIGHMASK\<close> is a macro of the host. \<open>eflag_atom\<close> and
  \<open>vflag_atom\<close> hold what the host's \<^verbatim>\<open>ev_init(eflag, vflag)\<close> has set. A slot of
  \<open>uncertainties\<close> that was allocated and never written is \<open>None\<close>.
\<close>

record lammps =
  atom_tag_enable :: int
  atom_nmax :: int
  atom_nlocal :: int
  atom_x :: "vec3 list"
  atom_f :: "vec3 list"
  atom_tag :: "int list"
  atom_type :: "int list"
  force_newton_pair :: int
  list_inum :: int
  list_gnum :: int
  list_ilist :: "int list"
  list_numneigh :: "int list"
  list_firstneigh :: "int list list"
  domain_boxlo :: vec3
  domain_boxhi :: vec3
  domain_xy :: real
  domain_xz :: real
  domain_yz :: real
  NEIGHMASK :: int
  neighbor_requests :: "string list"
  timer_timeout :: bool
  comm_messages :: "string list"
  cutoff :: real
  type_mapper :: "int list"
  nmax :: int
  uncertainties :: "real option list"
  eflag_atom :: int
  vflag_atom :: int
  eng_vdwl :: real
  eatom :: "real list"
  virial :: "real list"

text \<open>The named tensors handed to the model, and the tensors it returns.\<close>

record graph_input =
  g_pos :: "vec3 list"
  g_edge_index :: "(int \<times> int) list"
  g_edge_cell_shift :: "vec3 list"
  g_cell :: mat3
  g_atom_types :: "int list"

datatype tensor = T1 "real list" | T2 "real list list" | T3 "real list list list"

type_synonym dict = "(string \<times> tensor) list"

section \<open>Errors, array accesses and loops\<close>

definition bnd :: "error + 'a \<Rightarrow> ('a \<Rightarrow> error + 'b) \<Rightarrow> error + 'b" where
  "bnd m k = (case m of Inl e \<Rightarrow> Inl e | Inr v \<Rightarrow> k v)"

definition nth_chk :: "'a list \<Rightarrow> int \<Rightarrow> error + 'a" where
  "nth_chk xs i = (if 0 \<le> i \<and> i < int (length xs) then Inr (xs ! nat i) else Inl OutOfBounds)"

definition upd_chk :: "'a list \<Rightarrow> int \<Rightarrow> 'a \<Rightarrow> error + 'a list" where
  "upd_chk xs i v =
     (if 0 \<le> i \<and> i < int (length xs) then Inr (xs[nat i := v]) else Inl OutOfBounds)"

text \<open>\<^verbatim>\<open>for (int k = 0; k < n; k++)\<close> runs its body over \<open>range0 n\<close>.\<close>

definition range0 :: "int \<Rightarrow> int list" where
  "range0 n = [0..n - 1]"

fun for_loop :: "('s \<Rightarrow> int \<Rightarrow> error + 's) \<Rightarrow> 's \<Rightarrow> int list \<Rightarrow> error + 's" where
  "for_loop body s [] = Inr s"
| "for_loop body s (k # ks) = bnd (body s k) (\<lambda>s'. for_loop body s' ks)"

section \<open>PairPHIN::init\_style\<close>

definition init_style :: "lammps \<Rightarrow> error + lammps" where
  "init_style h =
     (if atom_tag_enable h = 0 then Inl RequiresAtomIDs
      else let h' = h\<lparr>neighbor_requests := neighbor_requests h @ [''REQ_FULL'']\<rparr>
           in if force_newton_pair h' = 1 then Inl RequiresNewtonOff else Inr h')"

section \<open>Floating-point rounding\<close>

text \<open>
  Rounding to the nearest number of a binary format with \<open>p\<close> fraction bits and the
  exponents from \<open>-emin\<close> to \<open>emax\<close>. \<open>binade emax emin a\<close> is the power of two at
  or below \<open>a\<close>, found by doubling or halving from 1 and held at \<open>2^(-emin)\<close> for the
  subnormal numbers; the spacing of the format at \<open>a\<close> is this power divided by
  \<open>2^p\<close>.
\<close>

function binade_up :: "int \<Rightarrow> real \<Rightarrow> real \<Rightarrow> real" where
  "binade_up k a s = (if 0 < k \<and> 2 * s \<le> a then binade_up (k - 1) a (2 * s) else s)"
  by pat_completeness auto
termination
  by (relation "measure (\<lambda>(k, a, s). nat k)") auto

function binade_down :: "int \<Rightarrow> real \<Rightarrow> real \<Rightarrow> real" where
  "binade_down k a s = (if 0 < k \<and> a < s then binade_down (k - 1) a (s / 2) else s)"
  by pat_completeness auto
termination
  by (relation "measure (\<lambda>(k, a, s). nat k)") auto

declare binade_up.simps [simp del] binade_down.simps [simp del]

definition binade :: "int \<Rightarrow> int \<Rightarrow> real \<Rightarrow> real" where
  "binade emax emin a = (if 1 \<le> a then binade_up emax a 1 else binade_down emin a 1)"

definition ties_even :: "real \<Rightarrow> int" where
  "ties_even r =
     (let n = \<lfloor>r\<rfloor>; d = r - of_int n
      in if d < 1 / 2 then n else if 1 / 2 < d then n + 1 else if even n then n else n + 1)"

definition ieee_round :: "nat \<Rightarrow> int \<Rightarrow> int \<Rightarrow> real \<Rightarrow> real" where
  "ieee_round p emax emin v =
     (if v = 0 then 0
      else let ulp = binade emax emin \<bar>v\<bar> / 2 ^ p in ulp * of_int (ties_even (v / ulp)))"

definition f64 :: "real \<Rightarrow> real" where
  "f64 = ieee_round 52 1023 1022"

definition f32 :: "real \<Rightarrow> real" where
  "f32 = ieee_round 23 127 126"

definition f32v :: "vec3 \<Rightarrow> vec3" where
  "f32v v = (case v of (v0, v1, v2) \<Rightarrow> (f32 v0, f32 v1, f32 v2))"

section \<open>Cell geometry\<close>

definition vsub :: "vec3 \<Rightarrow> vec3 \<Rightarrow> vec3" where
  "vsub a b = (case a of (a0, a1, a2) \<Rightarrow> case b of (b0, b1, b2) \<Rightarrow> (a0 - b0, a1 - b1, a2 - b2))"

text \<open>
  The cell tensor starts as \<^verbatim>\<open>torch::zeros({3,3})\<close>; six entries are assigned from
  the box of the host. Nothing is checked.
\<close>

definition get_cell :: "lammps \<Rightarrow> mat3" where
  "get_cell h =
     (case domain_boxlo h of (lo0, lo1, lo2) \<Rightarrow>
      case domain_boxhi h of (hi0, hi1, hi2) \<Rightarrow>
        ((hi0 - lo0, 0, 0),
         (domain_xy h, hi1 - lo1, 0),
         (domain_xz h, domain_yz h, hi2 - lo2)))"

text \<open>
  Three operations of libtorch on a 3\<times>3 tensor and a 3-vector, from their documented
  meaning: \<^verbatim>\<open>inverse()\<close> (which throws on a singular matrix), \<^verbatim>\<open>transpose(0,1)\<close>
  and \<^verbatim>\<open>matmul\<close>.
\<close>

definition det3 :: "mat3 \<Rightarrow> real" where
  "det3 m =
     (case m of ((a, b, c), (d, e, f), (g, h, i)) \<Rightarrow>
        a * (e * i - f * h) - b * (d * i - f * g) + c * (d * h - e * g))"

definition torch_inverse :: "mat3 \<Rightarrow> error + mat3" where
  "torch_inverse m =
     (case m of ((a, b, c), (d, e, f), (g, h, i)) \<Rightarrow>
        if det3 m = 0 then Inl SingularMatrix
        else Inr (((e * i - f * h) / det3 m, (c * h - b * i) / det3 m, (b * f - c * e) / det3 m),
                  ((f * g - d * i) / det3 m, (a * i - c * g) / det3 m, (c * d - a * f) / det3 m),
                  ((d * h - e * g) / det3 m, (b * g - a * h) / det3 m, (a * e - b * d) / det3 m)))"

definition transpose3 :: "mat3 \<Rightarrow> mat3" where
  "transpose3 m =
     (case m of ((a, b, c), (d, e, f), (g, h, i)) \<Rightarrow> ((a, d, g), (b, e, h), (c, f, i)))"

definition matvec :: "mat3 \<Rightarrow> vec3 \<Rightarrow> vec3" where
  "matvec m v =
     (case m of ((a, b, c), (d, e, f), (g, h, i)) \<Rightarrow>
      case v of (v0, v1, v2) \<Rightarrow>
        (a * v0 + b * v1 + c * v2, d * v0 + e * v1 + f * v2, g * v0 + h * v1 + i * v2))"

text \<open>\<^verbatim>\<open>std::round\<close>: to the nearest integer, halfway cases away from zero.\<close>

definition std_round :: "real \<Rightarrow> real" where
  "std_round r = (if 0 \<le> r then of_int \<lfloor>r + 1 / 2\<rfloor> else of_int \<lceil>r - 1 / 2\<rceil>)"

definition round3 :: "vec3 \<Rightarrow> vec3" where
  "round3 v = (case v of (v0, v1, v2) \<Rightarrow> (std_round v0, std_round v1, std_round v2))"

section \<open>The graph of one step\<close>

text \<open>
  The first loop of both styles, over the local atoms in neighbour-list order: it fills
  \<open>tag2i\<close>, \<open>tag2type\<close> and \<open>pos\<close> at the dense index \<open>itag - 1\<close>. \<open>pos\<close> is a
  \<^verbatim>\<open>float\<close> tensor, so the double coordinates are rounded when stored.
\<close>

type_synonym tagged = "int list \<times> int list \<times> vec3 list"

definition store_atom :: "lammps \<Rightarrow> tagged \<Rightarrow> int \<Rightarrow> error + tagged" where
  "store_atom h st ii =
     (case st of (tag2i, tag2type, pos) \<Rightarrow>
      bnd (nth_chk (list_ilist h) ii) (\<lambda>i.
      bnd (nth_chk (atom_tag h) i) (\<lambda>itag.
      bnd (nth_chk (atom_type h) i) (\<lambda>itype.
      bnd (upd_chk tag2i (itag - 1) i) (\<lambda>tag2i'.
      bnd (nth_chk (type_mapper h) itype) (\<lambda>mapped.
      bnd (upd_chk tag2type (itag - 1) mapped) (\<lambda>tag2type'.
      bnd (nth_chk (atom_x h) i) (\<lambda>xi.
      bnd (upd_chk pos (itag - 1) (f32v xi)) (\<lambda>pos'.
      Inr (tag2i', tag2type', pos'))))))))))"

text \<open>
  \<^verbatim>\<open>std::vector<int> tag2i(inum)\<close> and the two \<^verbatim>\<open>torch::zeros\<close> tensors of
  \<open>nlocal\<close> rows start filled with zeros.
\<close>

definition store_atoms :: "lammps \<Rightarrow> error + tagged" where
  "store_atoms h =
     for_loop (store_atom h)
       (replicate (nat (list_inum h)) 0,
        replicate (nat (atom_nlocal h)) 0,
        replicate (nat (atom_nlocal h)) (0, 0, 0))
       (range0 (list_inum h))"

text \<open>
  The edges written so far, each with its cell shift: the arrays \<^verbatim>\<open>edges\<close> and
  \<^verbatim>\<open>edge_cell_shifts\<close> up to \<^verbatim>\<open>edge_counter\<close>, which is the length of the list.
  Both arrays have room for \<open>nedges\<close> edges.
\<close>

type_synonym edge_acc = "((int \<times> int) \<times> vec3) list"

text \<open>
  \<^verbatim>\<open>dx = x[i][0] - x[j][0]\<close> and its two siblings, then
  \<^verbatim>\<open>rsq = dx*dx + dy*dy + dz*dz\<close>: eight operations on doubles, the sum taken
  from the left.
\<close>

definition rsq :: "vec3 \<Rightarrow> vec3 \<Rightarrow> real" where
  "rsq xi xj =
     (case xi of (xi0, xi1, xi2) \<Rightarrow> case xj of (xj0, xj1, xj2) \<Rightarrow>
        let dx = f64 (xi0 - xj0); dy = f64 (xi1 - xj1); dz = f64 (xi2 - xj2)
        in f64 (f64 (f64 (dx * dx) + f64 (dy * dy)) + f64 (dz * dz)))"

text \<open>
  \<^verbatim>\<open>periodic_shift[k] = x[j][k] - pos[jtag-1][k]\<close>: the \<^verbatim>\<open>float\<close> entry of
  \<open>pos\<close> is promoted, the difference is a double, and the store into the
  \<^verbatim>\<open>float\<close> tensor rounds it again.
\<close>

definition periodic_shift :: "vec3 \<Rightarrow> vec3 \<Rightarrow> vec3" where
  "periodic_shift xj pj =
     (case xj of (xj0, xj1, xj2) \<Rightarrow> case pj of (pj0, pj1, pj2) \<Rightarrow>
        (f32 (f64 (xj0 - pj0)), f32 (f64 (xj1 - pj1)), f32 (f64 (xj2 - pj2))))"

definition emit_edge :: "mat3 \<Rightarrow> int \<Rightarrow> edge_acc \<Rightarrow> int \<Rightarrow> int \<Rightarrow> vec3 \<Rightarrow> error + edge_acc" where
  "emit_edge cell_inv nedges acc itag jtag ps =
     (if int (length acc) < nedges
      then Inr (acc @ [((itag - 1, jtag - 1), round3 (matvec cell_inv ps))])
      else Inl OutOfBounds)"

text \<open>
  One neighbour entry in \<^verbatim>\<open>PairPHIN::compute\<close>: the periodic shift is taken before the
  cutoff test, so \<open>pos\<close> is read for every entry.
\<close>

definition pair_neighbor ::
  "lammps \<Rightarrow> vec3 list \<Rightarrow> mat3 \<Rightarrow> int \<Rightarrow> int \<Rightarrow> int \<Rightarrow> int list \<Rightarrow> edge_acc \<Rightarrow> int \<Rightarrow> error + edge_acc" where
  "pair_neighbor h pos cell_inv nedges i itag jlist acc jj =
     bnd (nth_chk jlist jj) (\<lambda>j0.
     let j = j0 AND NEIGHMASK h in
     bnd (nth_chk (atom_tag h) j) (\<lambda>jtag.
     bnd (nth_chk (atom_x h) j) (\<lambda>xj.
     bnd (nth_chk pos (jtag - 1)) (\<lambda>pj.
     bnd (nth_chk (atom_x h) i) (\<lambda>xi.
     if rsq xi xj < f64 (cutoff h * cutoff h)
     then emit_edge cell_inv nedges acc itag jtag (periodic_shift xj pj)
     else Inr acc)))))"

text \<open>
  One neighbour entry in \<^verbatim>\<open>ComputeNEQUIP::compute_vector\<close>: the periodic shift is
  taken inside the cutoff test.
\<close>

definition nequip_neighbor ::
  "lammps \<Rightarrow> vec3 list \<Rightarrow> mat3 \<Rightarrow> int \<Rightarrow> int \<Rightarrow> int \<Rightarrow> int list \<Rightarrow> edge_acc \<Rightarrow> int \<Rightarrow> error + edge_acc" where
  "nequip_neighbor h pos cell_inv nedges i itag jlist acc jj =
     bnd (nth_chk jlist jj) (\<lambda>j0.
     let j = j0 AND NEIGHMASK h in
     bnd (nth_chk (atom_tag h) j) (\<lambda>jtag.
     bnd (nth_chk (atom_x h) i) (\<lambda>xi.
     bnd (nth_chk (atom_x h) j) (\<lambda>xj.
     if rsq xi xj < f64 (cutoff h * cutoff h)
     then bnd (nth_chk pos (jtag - 1)) (\<lambda>pj.
          emit_edge cell_inv nedges acc itag jtag (periodic_shift xj pj))
     else Inr acc))))"

text \<open>
  One local atom of the edge loop, the same in both styles up to the neighbour step
  \<open>visit\<close>.
\<close>

definition edge_atom ::
  "(int \<Rightarrow> int \<Rightarrow> int list \<Rightarrow> edge_acc \<Rightarrow> int \<Rightarrow> error + edge_acc) \<Rightarrow> lammps \<Rightarrow> edge_acc \<Rightarrow> int \<Rightarrow> error + edge_acc" where
  "edge_atom visit h acc ii =
     bnd (nth_chk (list_ilist h) ii) (\<lambda>i.
     bnd (nth_chk (atom_tag h) i) (\<lambda>itag.
     bnd (nth_chk (list_numneigh h) i) (\<lambda>jnum.
     bnd (nth_chk (list_firstneigh h) i) (\<lambda>jlist.
     for_loop (visit i itag jlist) acc (range0 jnum)))))"

text \<open>\<^verbatim>\<open>std::accumulate(numneigh, numneigh + n, 0)\<close>.\<close>

definition accumulate :: "int list \<Rightarrow> int \<Rightarrow> error + int" where
  "accumulate xs n =
     (if 0 \<le> n \<and> n \<le> int (length xs) then Inr (sum_list (take (nat n) xs)) else Inl OutOfBounds)"

definition make_input :: "tagged \<Rightarrow> mat3 \<Rightarrow> edge_acc \<Rightarrow> graph_input" where
  "make_input st c acc =
     (case st of (tag2i, tag2type, pos) \<Rightarrow>
        \<lparr>g_pos = pos, g_edge_index = map fst acc, g_edge_cell_shift = map snd acc,
         g_cell = c, g_atom_types = tag2type\<rparr>)"

text \<open>
  \<^verbatim>\<open>PairPHIN::compute\<close> from the count of the neighbour entries to the zero-edge check:
  the result is the edge list with its shifts, \<open>tag2i\<close>, \<open>tag2type\<close> and \<open>pos\<close>, and the
  host with the forced timeout when the neighbour list is empty.
\<close>

definition no_edges_message :: "lammps \<Rightarrow> lammps" where
  "no_edges_message h =
     h\<lparr>comm_messages := comm_messages h @ [''No Edges Detected''], timer_timeout := True\<rparr>"

definition pair_edges :: "lammps \<Rightarrow> error + (lammps \<times> tagged \<times> edge_acc)" where
  "pair_edges h =
     bnd (accumulate (list_numneigh h) (list_inum h + list_gnum h)) (\<lambda>nedges.
     let h' = (if nedges = 0 then no_edges_message h else h) in
     bnd (store_atoms h') (\<lambda>st.
     bnd (torch_inverse (get_cell h')) (\<lambda>inv.
     bnd (for_loop
            (edge_atom (pair_neighbor h' (snd (snd st)) (transpose3 inv) nedges) h')
            [] (range0 (atom_nlocal h'))) (\<lambda>acc.
     if length acc = 0 then Inl NoEdgesDetected else Inr (h', st, acc)))))"

text \<open>
  \<^verbatim>\<open>ComputeNEQUIP::compute_vector\<close> from the Newton check to the input of the model.
\<close>

definition nequip_edges :: "lammps \<Rightarrow> error + (tagged \<times> edge_acc)" where
  "nequip_edges h =
     (if force_newton_pair h = 1 then Inl RequiresNewtonOff
      else if list_inum h \<noteq> atom_nlocal h then Inl AssertionFailed
      else
        bnd (accumulate (list_numneigh h) (list_inum h)) (\<lambda>half.
        bnd (store_atoms h) (\<lambda>st.
        bnd (torch_inverse (get_cell h)) (\<lambda>inv.
        bnd (for_loop
               (edge_atom (nequip_neighbor h (snd (snd st)) (transpose3 inv) (2 * half)) h)
               [] (range0 (list_inum h))) (\<lambda>acc.
        Inr (st, acc))))))"

section \<open>The answer of the model\<close>

text \<open>
  \<^verbatim>\<open>output.at(key)\<close> throws when the key is absent; an accessor of rank 2 or 3 throws
  on a tensor of another rank; \<^verbatim>\<open>data_ptr<float>()[0]\<close> reads the first element.
\<close>

definition dict_at :: "dict \<Rightarrow> string \<Rightarrow> error + tensor" where
  "dict_at d k = (case map_of d k of None \<Rightarrow> Inl (MissingKey k) | Some t \<Rightarrow> Inr t)"

definition accessor2 :: "tensor \<Rightarrow> error + real list list" where
  "accessor2 t = (case t of T2 rows \<Rightarrow> Inr rows | _ \<Rightarrow> Inl WrongRank)"

definition accessor3 :: "tensor \<Rightarrow> error + real list list list" where
  "accessor3 t = (case t of T3 blocks \<Rightarrow> Inr blocks | _ \<Rightarrow> Inl WrongRank)"

definition data_ptr :: "tensor \<Rightarrow> real list" where
  "data_ptr t = (case t of T1 xs \<Rightarrow> xs | T2 rows \<Rightarrow> concat rows | T3 blocks \<Rightarrow> concat (concat blocks))"

definition at2 :: "real list list \<Rightarrow> int \<Rightarrow> int \<Rightarrow> error + real" where
  "at2 rows i j = bnd (nth_chk rows i) (\<lambda>row. nth_chk row j)"

definition at3 :: "real list list list \<Rightarrow> int \<Rightarrow> int \<Rightarrow> int \<Rightarrow> error + real" where
  "at3 blocks b i j = bnd (nth_chk blocks b) (\<lambda>rows. at2 rows i j)"

text \<open>
  The virial block of \<^verbatim>\<open>PairPHIN::compute\<close>: six assignments into the host's array
  \<^verbatim>\<open>virial[6]\<close>, the first index of \<open>v\<close> being the batch.
\<close>

definition write_virial :: "real list list list \<Rightarrow> real list \<Rightarrow> error + real list" where
  "write_virial v vir =
     bnd (at3 v 0 0 0) (\<lambda>v00. bnd (upd_chk vir 0 v00) (\<lambda>vir0.
     bnd (at3 v 0 1 1) (\<lambda>v11. bnd (upd_chk vir0 1 v11) (\<lambda>vir1.
     bnd (at3 v 0 2 2) (\<lambda>v22. bnd (upd_chk vir1 2 v22) (\<lambda>vir2.
     bnd (at3 v 0 0 1) (\<lambda>v01. bnd (upd_chk vir2 3 v01) (\<lambda>vir3.
     bnd (at3 v 0 0 2) (\<lambda>v02. bnd (upd_chk vir3 4 v02) (\<lambda>vir4.
     bnd (at3 v 0 1 2) (\<lambda>v12. upd_chk vir4 5 v12)))))))))))"

text \<open>
  One step of the last loop of \<^verbatim>\<open>PairPHIN::compute\<close>, at the dense index \<open>itag\<close>: the
  state is the three host arrays \<open>f\<close>, \<open>eatom\<close> and \<open>uncertainties\<close>.
\<close>

type_synonym scattered = "vec3 list \<times> real list \<times> real option list"

definition scatter_atom ::
  "int list \<Rightarrow> real list list \<Rightarrow> real list list \<Rightarrow> real list list \<Rightarrow> int \<Rightarrow> scattered \<Rightarrow> int \<Rightarrow> error + scattered" where
  "scatter_atom tag2i forces atomic_energies uncertainties_itag eflag_at st itag =
     (case st of (f, ea, unc) \<Rightarrow>
      bnd (nth_chk tag2i itag) (\<lambda>i.
      bnd (at2 forces itag 0) (\<lambda>f0.
      bnd (at2 forces itag 1) (\<lambda>f1.
      bnd (at2 forces itag 2) (\<lambda>f2.
      bnd (upd_chk f i (f0, f1, f2)) (\<lambda>f'.
      bnd (if eflag_at \<noteq> 0
           then bnd (at2 atomic_energies itag 0) (\<lambda>e. upd_chk ea i e)
           else Inr ea) (\<lambda>ea'.
      bnd (at2 uncertainties_itag itag 0) (\<lambda>u.
      bnd (upd_chk unc i (Some u)) (\<lambda>unc'.
      Inr (f', ea', unc'))))))))))"

text \<open>
  The block \<^verbatim>\<open>if(vflag)\<close> of \<^verbatim>\<open>PairPHIN::compute\<close>: the virial is fetched
  and flattened only when \<open>vflag\<close> is set.
\<close>

definition virial_block :: "int \<Rightarrow> dict \<Rightarrow> lammps \<Rightarrow> error + lammps" where
  "virial_block vflag output h =
     (if vflag \<noteq> 0
      then bnd (dict_at output ''virial'') (\<lambda>v_tensor.
           bnd (accessor3 v_tensor) (\<lambda>v.
           bnd (write_virial v (virial h)) (\<lambda>vir. Inr (h\<lparr>virial := vir\<rparr>))))
      else Inr h)"

text \<open>The last loop of \<^verbatim>\<open>PairPHIN::compute\<close>, over the dense indices below \<open>inum\<close>.\<close>

definition write_back ::
  "int list \<Rightarrow> real list list \<Rightarrow> real list list \<Rightarrow> real list list \<Rightarrow> lammps \<Rightarrow> error + lammps" where
  "write_back tag2i forces atomic_energies uncertainties_itag h =
     bnd (for_loop
            (scatter_atom tag2i forces atomic_energies uncertainties_itag (eflag_atom h))
            (atom_f h, eatom h, uncertainties h) (range0 (list_inum h)))
       (\<lambda>(f', ea', unc'). Inr (h\<lparr>atom_f := f', eatom := ea', uncertainties := unc'\<rparr>))"

text \<open>
  The part of \<^verbatim>\<open>PairPHIN::compute\<close> after the forward call: the named outputs are
  fetched, the virial is flattened when \<open>vflag\<close> is set, a per-atom virial request is
  refused, and the forces, energies and uncertainties are scattered.
\<close>

definition scatter :: "int \<Rightarrow> lammps \<Rightarrow> int list \<Rightarrow> dict \<Rightarrow> error + lammps" where
  "scatter vflag h tag2i output =
     bnd (dict_at output ''forces'') (\<lambda>forces_tensor.
     bnd (accessor2 forces_tensor) (\<lambda>forces.
     bnd (dict_at output ''total_energy'') (\<lambda>total_energy_tensor.
     bnd (nth_chk (data_ptr total_energy_tensor) 0) (\<lambda>total_energy.
     bnd (dict_at output ''atomic_energy'') (\<lambda>atomic_energy_tensor.
     bnd (accessor2 atomic_energy_tensor) (\<lambda>atomic_energies.
     bnd (dict_at output ''uncertainties'') (\<lambda>uncertainties_tensor.
     bnd (accessor2 uncertainties_tensor) (\<lambda>uncertainties_itag.
     bnd (virial_block vflag output (h\<lparr>eng_vdwl := total_energy\<rparr>)) (\<lambda>h2.
     if vflag_atom h2 \<noteq> 0 then Inl PerAtomVirialUnsupported
     else write_back tag2i forces atomic_energies uncertainties_itag h2)))))))))"

section \<open>PairPHIN::compute\<close>

text \<open>
  The model is a function from the graph to its named outputs, or to an exception. The
  per-atom array \<open>uncertainties\<close> is reallocated, with no slot written, when the host's
  \<open>nmax\<close> has grown.
\<close>

definition grow :: "lammps \<Rightarrow> lammps" where
  "grow h =
     (if atom_nmax h > nmax h
      then h\<lparr>nmax := atom_nmax h, uncertainties := replicate (nat (atom_nmax h)) None\<rparr>
      else h)"

definition compute :: "(graph_input \<Rightarrow> error + dict) \<Rightarrow> int \<Rightarrow> int \<Rightarrow> lammps \<Rightarrow> error + lammps" where
  "compute model eflag vflag h0 =
     (let h = grow h0 in
      if force_newton_pair h = 1 then Inl RequiresNewtonOff
      else if list_inum h \<noteq> atom_nlocal h then Inl AssertionFailed
      else
        bnd (pair_edges h) (\<lambda>(h', st, acc).
        bnd (model (make_input st (get_cell h') acc)) (\<lambda>output.
        scatter vflag h' (fst st) output)))"

section \<open>The properties, in the words of the specification\<close>

text \<open>
  \<open>elem xs i\<close> is the entry of an array at an index that is known to be inside it.
\<close>

definition elem :: "'a list \<Rightarrow> int \<Rightarrow> 'a" where
  "elem xs i = xs ! nat i"

text \<open>
  The entries of the neighbour lists of the first \<open>n\<close> atoms of \<open>ilist\<close>, in the order
  of the lists: each is a pair of host indices \<open>(i, j)\<close>, \<open>j\<close> with its flag bits
  masked off.
\<close>

definition neighbor_entries :: "lammps \<Rightarrow> int \<Rightarrow> (int \<times> int) list" where
  "neighbor_entries h n =
     concat (map (\<lambda>ii.
         map (\<lambda>jj. (elem (list_ilist h) ii,
                     elem (elem (list_firstneigh h) (elem (list_ilist h) ii)) jj AND NEIGHMASK h))
           (range0 (elem (list_numneigh h) (elem (list_ilist h) ii))))
       (range0 n))"

text \<open>
  The squared Euclidean distance of two points, and the entries whose two atoms are
  closer than the cutoff: both exact.
\<close>

definition sq_dist :: "vec3 \<Rightarrow> vec3 \<Rightarrow> real" where
  "sq_dist a b = (case vsub a b of (dx, dy, dz) \<Rightarrow> dx\<^sup>2 + dy\<^sup>2 + dz\<^sup>2)"

definition euclid_within :: "lammps \<Rightarrow> int \<times> int \<Rightarrow> bool" where
  "euclid_within h p =
     (case p of (i, j) \<Rightarrow> sq_dist (elem (atom_x h) i) (elem (atom_x h) j) < (cutoff h)\<^sup>2)"

text \<open>
  The entries that pass the cutoff filter: the squared distance and the squared cutoff
  are the doubles the code computes.
\<close>

definition within_cutoff :: "lammps \<Rightarrow> int \<times> int \<Rightarrow> bool" where
  "within_cutoff h p =
     (case p of (i, j) \<Rightarrow>
        rsq (elem (atom_x h) i) (elem (atom_x h) j) < f64 (cutoff h * cutoff h))"

text \<open>
  A number that binary64 holds exactly, and an entry at which none of the nine double
  operations of the cutoff test rounds.
\<close>

definition exact64 :: "real \<Rightarrow> bool" where
  "exact64 v = (f64 v = v)"

definition unrounded :: "lammps \<Rightarrow> int \<times> int \<Rightarrow> bool" where
  "unrounded h p =
     (case p of (i, j) \<Rightarrow>
      case vsub (elem (atom_x h) i) (elem (atom_x h) j) of (dx, dy, dz) \<Rightarrow>
        exact64 dx \<and> exact64 dy \<and> exact64 dz \<and>
        exact64 (dx * dx) \<and> exact64 (dy * dy) \<and> exact64 (dz * dz) \<and>
        exact64 (dx * dx + dy * dy) \<and> exact64 (dx * dx + dy * dy + dz * dz) \<and>
        exact64 (cutoff h * cutoff h))"

text \<open>The dense node indices of the two ends of an entry.\<close>

definition dense_edge :: "lammps \<Rightarrow> int \<times> int \<Rightarrow> int \<times> int" where
  "dense_edge h p = (case p of (i, j) \<Rightarrow> (elem (atom_tag h) i - 1, elem (atom_tag h) j - 1))"

text \<open>
  The displacement of the neighbour from the dense-ordered position of its tag, as the
  float tensor holds it, and its fractional coordinates in the cell, each rounded to
  the nearest integer.
\<close>

definition displacement :: "lammps \<Rightarrow> vec3 list \<Rightarrow> int \<times> int \<Rightarrow> vec3" where
  "displacement h pos p =
     (case p of (i, j) \<Rightarrow>
        periodic_shift (elem (atom_x h) j) (elem pos (elem (atom_tag h) j - 1)))"

definition image_shift :: "lammps \<Rightarrow> vec3 list \<Rightarrow> mat3 \<Rightarrow> int \<times> int \<Rightarrow> vec3" where
  "image_shift h pos inv_t p = round3 (matvec inv_t (displacement h pos p))"

text \<open>
  The combination \<open>t0 a + t1 b + t2 c\<close> of the three lattice vectors, the rows of the
  cell; and a vector each of whose components is within one half of the other's.
\<close>

definition lattice_comb :: "vec3 \<Rightarrow> mat3 \<Rightarrow> vec3" where
  "lattice_comb t c =
     (case t of (t0, t1, t2) \<Rightarrow>
      case c of ((a0, a1, a2), (b0, b1, b2), (c0, c1, c2)) \<Rightarrow>
        (t0 * a0 + t1 * b0 + t2 * c0,
         t0 * a1 + t1 * b1 + t2 * c1,
         t0 * a2 + t1 * b2 + t2 * c2))"

definition within_half :: "vec3 \<Rightarrow> vec3 \<Rightarrow> bool" where
  "within_half s t =
     (case s of (s0, s1, s2) \<Rightarrow> case t of (t0, t1, t2) \<Rightarrow>
        \<bar>s0 - t0\<bar> \<le> 1 / 2 \<and> \<bar>s1 - t1\<bar> \<le> 1 / 2 \<and> \<bar>s2 - t2\<bar> \<le> 1 / 2)"

text \<open>What one entry within the cutoff contributes: its edge and its shift.\<close>

definition entry_edge :: "lammps \<Rightarrow> vec3 list \<Rightarrow> mat3 \<Rightarrow> int \<times> int \<Rightarrow> (int \<times> int) \<times> vec3" where
  "entry_edge h pos inv_t p = (dense_edge h p, image_shift h pos inv_t p)"

definition integral3 :: "vec3 \<Rightarrow> bool" where
  "integral3 v = (case v of (v0, v1, v2) \<Rightarrow> v0 \<in> \<int> \<and> v1 \<in> \<int> \<and> v2 \<in> \<int>)"

text \<open>The tags of the local atoms, in neighbour-list order.\<close>

definition local_tags :: "lammps \<Rightarrow> int list" where
  "local_tags h = map (\<lambda>ii. elem (atom_tag h) (elem (list_ilist h) ii)) (range0 (list_inum h))"

text \<open>The dense node index of the local atom at place \<open>ii\<close> of \<open>ilist\<close>.\<close>

definition dense :: "lammps \<Rightarrow> int \<Rightarrow> int" where
  "dense h ii = elem (atom_tag h) (elem (list_ilist h) ii) - 1"

text \<open>The three components of row \<open>d\<close> of an \<open>N \<times> 3\<close> tensor.\<close>

definition row3 :: "real list list \<Rightarrow> int \<Rightarrow> vec3" where
  "row3 rows d = (elem (elem rows d) 0, elem (elem rows d) 1, elem (elem rows d) 2)"

section \<open>A configuration of two atoms\<close>

text \<open>
  A cubic box of side 10 with cutoff 5: atom 0 (tag 1) at the origin, atom 1 (tag 2) at
  \<open>(9, 0, 0)\<close>, and two ghost images, atom 2 (tag 2) at \<open>(-1, 0, 0)\<close> and atom 3
  (tag 1) at \<open>(10, 0, 0)\<close>. Each local atom lists the other local atom, which is
  beyond the cutoff, and the other's ghost image, which is within it; the entry of
  ghost 2 carries a flag bit above the mask, \<open>2 + 2^30\<close>.
\<close>

definition two_atoms :: lammps where
  "two_atoms =
     \<lparr>atom_tag_enable = 1, atom_nmax = 4, atom_nlocal = 2,
      atom_x = [(0, 0, 0), (9, 0, 0), (-1, 0, 0), (10, 0, 0)],
      atom_f = [(7, 7, 7), (7, 7, 7), (0, 0, 0), (0, 0, 0)],
      atom_tag = [1, 2, 2, 1], atom_type = [1, 1, 1, 1],
      force_newton_pair = 0, list_inum = 2, list_gnum = 2, list_ilist = [0, 1],
      list_numneigh = [2, 2, 0, 0],
      list_firstneigh = [[1, 1073741826], [0, 3], [], []],
      domain_boxlo = (0, 0, 0), domain_boxhi = (10, 10, 10),
      domain_xy = 0, domain_xz = 0, domain_yz = 0,
      NEIGHMASK = 1073741823, neighbor_requests = [], timer_timeout = False,
      comm_messages = [], cutoff = 5, type_mapper = [-1, 0], nmax = 0,
      uncertainties = [], eflag_atom = 0, vflag_atom = 0, eng_vdwl = 0,
      eatom = [0, 0, 0, 0], virial = [0, 0, 0, 0, 0, 0]\<rparr>"

text \<open>
  A triclinic cell with the lattice vectors \<open>(10, 0, 0)\<close>, \<open>(4, 10, 0)\<close> and
  \<open>(3, 2, 10)\<close> and cutoff 29. Local atom 0 has tag 2 and local atom 1 has tag 1.
  Ghost 2 is atom 1 moved by twice the second lattice vector, a quarter short in \<open>y\<close>;
  ghost 3 is atom 0 moved back by the third lattice vector, a half off in \<open>y\<close>; ghost 4
  is atom 0 moved by three times the first lattice vector, which puts it beyond the
  cutoff of atom 0.
\<close>

definition tilted :: lammps where
  "tilted =
     \<lparr>atom_tag_enable = 1, atom_nmax = 5, atom_nlocal = 2,
      atom_x = [(1, 2, 3), (6, 7, 8), (14, 26.75, 8), (-2, 0.5, -7), (31, 2, 3)],
      atom_f = [(7, 7, 7), (7, 7, 7), (0, 0, 0), (0, 0, 0), (0, 0, 0)],
      atom_tag = [2, 1, 1, 2, 2], atom_type = [1, 2, 2, 1, 1],
      force_newton_pair = 0, list_inum = 2, list_gnum = 3, list_ilist = [0, 1],
      list_numneigh = [3, 2, 0, 0, 0],
      list_firstneigh = [[1, 2, 4], [0, 3], [], [], []],
      domain_boxlo = (0, 0, 0), domain_boxhi = (10, 10, 10),
      domain_xy = 4, domain_xz = 3, domain_yz = 2,
      NEIGHMASK = 1073741823, neighbor_requests = [], timer_timeout = False,
      comm_messages = [], cutoff = 29, type_mapper = [-1, 0, 1], nmax = 0,
      uncertainties = [], eflag_atom = 0, vflag_atom = 0, eng_vdwl = 0,
      eatom = [0, 0, 0, 0, 0], virial = [0, 0, 0, 0, 0, 0]\<rparr>"

text \<open>
  Two atoms in a cubic box of side 10 with cutoff \<open>1.5\<close>, each in the other's
  neighbour list: one at the origin, the other at the doubles nearest to \<open>0.9\<close> and
  \<open>1.2\<close> in \<open>x\<close> and \<open>y\<close>.
\<close>

definition grazing :: lammps where
  "grazing =
     \<lparr>atom_tag_enable = 1, atom_nmax = 2, atom_nlocal = 2,
      atom_x = [(0, 0, 0), (f64 (9 / 10), f64 (6 / 5), 0)],
      atom_f = [(0, 0, 0), (0, 0, 0)],
      atom_tag = [1, 2], atom_type = [1, 1],
      force_newton_pair = 0, list_inum = 2, list_gnum = 0, list_ilist = [0, 1],
      list_numneigh = [1, 1], list_firstneigh = [[1], [0]],
      domain_boxlo = (0, 0, 0), domain_boxhi = (10, 10, 10),
      domain_xy = 0, domain_xz = 0, domain_yz = 0,
      NEIGHMASK = 1073741823, neighbor_requests = [], timer_timeout = False,
      comm_messages = [], cutoff = 3 / 2, type_mapper = [-1, 0], nmax = 0,
      uncertainties = [], eflag_atom = 0, vflag_atom = 0, eng_vdwl = 0,
      eatom = [0, 0], virial = [0, 0, 0, 0, 0, 0]\<rparr>"

text \<open>A model that answers with every named output, and one that leaves the uncertainties out.\<close>

definition full_answer :: "graph_input \<Rightarrow> error + dict" where
  "full_answer g =
     Inr [(''forces'', T2 [[1, 2, 3], [4, 5, 6]]),
          (''total_energy'', T1 [-3]),
          (''atomic_energy'', T2 [[-1], [-2]]),
          (''uncertainties'', T2 [[1 / 2], [1 / 4]]),
          (''virial'', T3 [[[11, 12, 13], [12, 22, 23], [13, 23, 33]]])]"

definition plain_answer :: "graph_input \<Rightarrow> error + dict" where
  "plain_answer g =
     Inr [(''forces'', T2 [[1, 2, 3], [4, 5, 6]]),
          (''total_energy'', T1 [-3]),
          (''atomic_energy'', T2 [[-1], [-2]]),
          (''virial'', T3 [[[11, 12, 13], [12, 22, 23], [13, 23, 33]]])]"

section \<open>Basic facts\<close>

text \<open>The equations that evaluate the model on a concrete configuration.\<close>

lemma replicate_numeral: "replicate (numeral k) x = x # replicate (pred_numeral k) x"
  by (simp add: numeral_eq_Suc)

lemmas model_eval =
  bnd_def nth_chk_def upd_chk_def range0_def init_style_def
  binade_up.simps binade_down.simps binade_def ties_even_def ieee_round_def f64_def f32_def
  f32v_def vsub_def get_cell_def det3_def torch_inverse_def transpose3_def matvec_def
  std_round_def round3_def store_atom_def store_atoms_def rsq_def periodic_shift_def
  emit_edge_def pair_neighbor_def nequip_neighbor_def edge_atom_def accumulate_def
  make_input_def no_edges_message_def pair_edges_def nequip_edges_def dict_at_def
  accessor2_def accessor3_def data_ptr_def at2_def at3_def write_virial_def scatter_atom_def
  virial_block_def write_back_def scatter_def grow_def compute_def elem_def
  neighbor_entries_def sq_dist_def euclid_within_def within_cutoff_def exact64_def
  unrounded_def dense_edge_def displacement_def image_shift_def lattice_comb_def
  within_half_def integral3_def local_tags_def dense_def row3_def Let_def upto.simps replicate_numeral

lemma bnd_Inr_iff: "bnd m k = Inr r \<longleftrightarrow> (\<exists>v. m = Inr v \<and> k v = Inr r)"
  by (cases m) (simp_all add: bnd_def)

lemma bnd_Inl: "bnd (Inl e) k = Inl e"
  by (simp add: bnd_def)

lemma bnd_Inr: "bnd (Inr v) k = k v"
  by (simp add: bnd_def)

lemma nth_chk_Inr_iff:
  "nth_chk xs i = Inr v \<longleftrightarrow> 0 \<le> i \<and> i < int (length xs) \<and> v = elem xs i"
  by (auto simp: nth_chk_def elem_def)

lemma upd_chk_Inr_iff:
  "upd_chk xs i v = Inr ys \<longleftrightarrow> 0 \<le> i \<and> i < int (length xs) \<and> ys = xs[nat i := v]"
  by (auto simp: upd_chk_def)

lemma grow_newton: "force_newton_pair (grow h) = force_newton_pair h"
  by (simp add: grow_def)

lemma pair_edges_host:
  "pair_edges h = Inr (h', st, acc) \<Longrightarrow> h' = h \<or> h' = no_edges_message h"
  by (auto simp: pair_edges_def bnd_Inr_iff Let_def split: if_splits)

section \<open>Newton pairs\<close>

text \<open>
  C8. With reverse force communication enabled (\<open>newton_pair = 1\<close>) the style
  initialisation fails, with the Newton error as soon as atom IDs are enabled, and every
  call of the per-step compute fails with the Newton error, whatever the model and the
  flags: no host state is returned, so no force is written.
\<close>

theorem newton_refused:
  assumes "force_newton_pair h = 1"
  shows "(\<exists>e. init_style h = Inl e) \<and>
         (atom_tag_enable h \<noteq> 0 \<longrightarrow> init_style h = Inl RequiresNewtonOff) \<and>
         (\<forall>model eflag vflag. compute model eflag vflag h = Inl RequiresNewtonOff)"
  using assms by (simp add: init_style_def compute_def grow_newton Let_def)

theorem newton_refused_witness:
  "force_newton_pair (two_atoms\<lparr>force_newton_pair := 1\<rparr>) = 1 \<and>
   init_style (two_atoms\<lparr>force_newton_pair := 1\<rparr>) = Inl RequiresNewtonOff \<and>
   compute full_answer 0 0 (two_atoms\<lparr>force_newton_pair := 1\<rparr>) = Inl RequiresNewtonOff"
  using newton_refused [of "two_atoms\<lparr>force_newton_pair := 1\<rparr>"]
  by (simp add: two_atoms_def)

section \<open>Per-atom virial\<close>

lemma virial_block_Inr:
  assumes "virial_block vflag out h = Inr h2"
  shows "\<exists>vir. h2 = h\<lparr>virial := vir\<rparr> \<and> (vflag = 0 \<longrightarrow> vir = virial h) \<and>
           (vflag \<noteq> 0 \<longrightarrow> (\<exists>v. map_of out ''virial'' = Some (T3 v) \<and>
              write_virial v (virial h) = Inr vir))"
  using assms
  by (auto simp: virial_block_def bnd_Inr_iff dict_at_def accessor3_def
      split: if_splits option.splits tensor.splits)

lemma dict_at_Inr_iff: "dict_at d k = Inr t \<longleftrightarrow> map_of d k = Some t"
  by (simp add: dict_at_def split: option.splits)

lemma accessor2_Inr_iff: "accessor2 t = Inr rows \<longleftrightarrow> t = T2 rows"
  by (simp add: accessor2_def split: tensor.splits)

lemma accessor3_Inr_iff: "accessor3 t = Inr blocks \<longleftrightarrow> t = T3 blocks"
  by (simp add: accessor3_def split: tensor.splits)

lemma scatter_Inr:
  assumes "scatter vflag h tag2i out = Inr h'"
  shows "\<exists>forces e energies unc_t h2.
           map_of out ''forces'' = Some (T2 forces) \<and>
           map_of out ''atomic_energy'' = Some (T2 energies) \<and>
           map_of out ''uncertainties'' = Some (T2 unc_t) \<and>
           virial_block vflag out (h\<lparr>eng_vdwl := e\<rparr>) = Inr h2 \<and>
           vflag_atom h2 = 0 \<and>
           write_back tag2i forces energies unc_t h2 = Inr h'"
proof -
  from assms obtain ft forces tt e et energies ut unc_t h2 where
    "dict_at out ''forces'' = Inr ft" "accessor2 ft = Inr forces"
    "dict_at out ''total_energy'' = Inr tt" "nth_chk (data_ptr tt) 0 = Inr e"
    "dict_at out ''atomic_energy'' = Inr et" "accessor2 et = Inr energies"
    "dict_at out ''uncertainties'' = Inr ut" "accessor2 ut = Inr unc_t"
    "virial_block vflag out (h\<lparr>eng_vdwl := e\<rparr>) = Inr h2"
    "(if vflag_atom h2 \<noteq> 0 then Inl PerAtomVirialUnsupported
      else write_back tag2i forces energies unc_t h2) = Inr h'"
    unfolding scatter_def bnd_Inr_iff by blast
  then show ?thesis
    by (auto simp: dict_at_Inr_iff accessor2_Inr_iff split: if_splits)
qed

lemma scatter_vflag_atom:
  assumes "vflag_atom h \<noteq> 0"
  shows "\<exists>e. scatter vflag h tag2i out = Inl e"
proof -
  have "scatter vflag h tag2i out \<noteq> Inr r" for r
  proof
    assume "scatter vflag h tag2i out = Inr r"
    from scatter_Inr [OF this] obtain e h2 where
      "virial_block vflag out (h\<lparr>eng_vdwl := e\<rparr>) = Inr h2" and "vflag_atom h2 = 0"
      by blast
    with assms virial_block_Inr [of vflag out "h\<lparr>eng_vdwl := e\<rparr>" h2] show False by auto
  qed
  then show ?thesis by (cases "scatter vflag h tag2i out") auto
qed

text \<open>
  C7. When the per-atom virial flag is set, the per-step compute ends in an error for
  every model and every pair of flags: it returns no host state.
\<close>

theorem per_atom_virial_refused:
  assumes "vflag_atom h \<noteq> 0"
  shows "\<exists>e. compute model eflag vflag h = Inl e"
proof -
  have "compute model eflag vflag h \<noteq> Inr r" for r
  proof
    assume c: "compute model eflag vflag h = Inr r"
    then obtain h' st acc out where
      pe: "pair_edges (grow h) = Inr (h', st, acc)"
      and sc: "scatter vflag h' (fst st) out = Inr r"
      by (auto simp: compute_def Let_def bnd_Inr_iff split: if_splits)
    from pair_edges_host [OF pe] have "vflag_atom h' = vflag_atom h"
      by (auto simp: grow_def no_edges_message_def)
    with assms scatter_vflag_atom [of h' vflag "fst st" out] sc show False by auto
  qed
  then show ?thesis by (cases "compute model eflag vflag h") auto
qed

theorem per_atom_virial_refused_witness:
  "vflag_atom (two_atoms\<lparr>vflag_atom := 4\<rparr>) \<noteq> 0 \<and>
   compute full_answer 0 4 (two_atoms\<lparr>vflag_atom := 4\<rparr>) = Inl PerAtomVirialUnsupported"
proof -
  have "compute full_answer 0 4 (two_atoms\<lparr>vflag_atom := 4\<rparr>) = Inl PerAtomVirialUnsupported"
    by (simp add: model_eval two_atoms_def full_answer_def plain_answer_def)
  with per_atom_virial_refused [of "two_atoms\<lparr>vflag_atom := 4\<rparr>" full_answer 0 4]
  show ?thesis by (simp add: two_atoms_def)
qed

section \<open>The virial\<close>

lemma at2_Inr_iff:
  "at2 rows i j = Inr v \<longleftrightarrow>
     0 \<le> i \<and> i < int (length rows) \<and> 0 \<le> j \<and> j < int (length (elem rows i)) \<and>
     v = elem (elem rows i) j"
  by (auto simp: at2_def bnd_Inr_iff nth_chk_Inr_iff)

lemma at3_Inr_iff:
  "at3 blocks b i j = Inr v \<longleftrightarrow>
     0 \<le> b \<and> b < int (length blocks) \<and> at2 (elem blocks b) i j = Inr v"
  by (auto simp: at3_def bnd_Inr_iff nth_chk_Inr_iff)

lemma six_updates:
  assumes "6 \<le> length xs"
  shows "take 6 (xs[0 := a, 1 := b, 2 := c, 3 := d, 4 := e, 5 := f]) = [a, b, c, d, e, f]"
proof (rule nth_equalityI)
  show "length (take 6 (xs[0 := a, 1 := b, 2 := c, 3 := d, 4 := e, 5 := f])) = length [a, b, c, d, e, f]"
    using assms by simp
next
  fix i assume "i < length (take 6 (xs[0 := a, 1 := b, 2 := c, 3 := d, 4 := e, 5 := f]))"
  then have "i < 6" by simp
  then consider "i = 0" | "i = 1" | "i = 2" | "i = 3" | "i = 4" | "i = 5" by linarith
  moreover from assms have "0 < length xs" "1 < length xs" "2 < length xs" "3 < length xs"
    "4 < length xs" "5 < length xs" by linarith+
  ultimately show "take 6 (xs[0 := a, 1 := b, 2 := c, 3 := d, 4 := e, 5 := f]) ! i = [a, b, c, d, e, f] ! i"
    by cases (simp_all add: nth_list_update)
qed

lemma write_virial_Inr:
  assumes "write_virial v vir = Inr vir'"
  shows "take 6 vir' =
           [v ! 0 ! 0 ! 0, v ! 0 ! 1 ! 1, v ! 0 ! 2 ! 2, v ! 0 ! 0 ! 1, v ! 0 ! 0 ! 2, v ! 0 ! 1 ! 2] \<and>
         drop 6 vir' = drop 6 vir"
proof -
  from assms have len: "6 \<le> length vir"
    and eq: "vir' = vir[0 := v ! 0 ! 0 ! 0, 1 := v ! 0 ! 1 ! 1, 2 := v ! 0 ! 2 ! 2,
                        3 := v ! 0 ! 0 ! 1, 4 := v ! 0 ! 0 ! 2, 5 := v ! 0 ! 1 ! 2]"
    by (auto simp: write_virial_def bnd_Inr_iff upd_chk_Inr_iff at3_Inr_iff at2_Inr_iff elem_def)
  show ?thesis unfolding eq using six_updates [OF len] by (simp add: drop_update_cancel)
qed

lemma scatter_virial:
  assumes "scatter vflag h tag2i out = Inr h'" and "vflag \<noteq> 0"
  shows "\<exists>v vir. map_of out ''virial'' = Some (T3 v) \<and>
           write_virial v (virial h) = Inr vir \<and> virial h' = vir"
proof -
  from scatter_Inr [OF assms(1)] obtain e h2 where
    vb: "virial_block vflag out (h\<lparr>eng_vdwl := e\<rparr>) = Inr h2"
    and wb: "\<exists>forces ae ut. write_back tag2i forces ae ut h2 = Inr h'"
    by blast
  from wb have "virial h' = virial h2"
    by (auto simp: write_back_def bnd_Inr_iff)
  with virial_block_Inr [OF vb] assms(2) show ?thesis by auto
qed

text \<open>
  C6. When \<open>vflag\<close> is set and the per-step compute returns, the model has answered
  with a rank-3 tensor \<open>v\<close> under the name \<open>virial\<close>, and the first six entries of the
  host's virial array are \<open>v[0][0][0]\<close>, \<open>v[0][1][1]\<close>, \<open>v[0][2][2]\<close>,
  \<open>v[0][0][1]\<close>, \<open>v[0][0][2]\<close>, \<open>v[0][1][2]\<close> in this order, the leading index
  being the batch: the order xx, yy, zz, xy, xz, yz, with no sign change. Nothing beyond
  the six entries is touched.
\<close>

theorem virial_flattened:
  assumes "compute model eflag vflag h = Inr h'" and "vflag \<noteq> 0"
  shows "\<exists>g out v. model g = Inr out \<and> map_of out ''virial'' = Some (T3 v) \<and>
           take 6 (virial h') =
             [v ! 0 ! 0 ! 0, v ! 0 ! 1 ! 1, v ! 0 ! 2 ! 2, v ! 0 ! 0 ! 1, v ! 0 ! 0 ! 2, v ! 0 ! 1 ! 2] \<and>
           drop 6 (virial h') = drop 6 (virial h)"
proof -
  from assms(1) obtain h1 st acc out where
    pe: "pair_edges (grow h) = Inr (h1, st, acc)"
    and m: "model (make_input st (get_cell h1) acc) = Inr out"
    and sc: "scatter vflag h1 (fst st) out = Inr h'"
    by (auto simp: compute_def Let_def bnd_Inr_iff split: if_splits)
  from pair_edges_host [OF pe] have v1: "virial h1 = virial h"
    by (auto simp: grow_def no_edges_message_def)
  from scatter_virial [OF sc assms(2)] obtain v vir where
    k: "map_of out ''virial'' = Some (T3 v)" and w: "write_virial v (virial h1) = Inr vir"
    and e: "virial h' = vir" by blast
  from write_virial_Inr [OF w] e v1 k m show ?thesis by auto
qed

theorem virial_flattened_witness:
  "\<not> isl (compute full_answer 0 1 two_atoms) \<and> (1::int) \<noteq> 0 \<and>
   take 6 (virial (projr (compute full_answer 0 1 two_atoms))) = [11, 22, 33, 12, 13, 23]"
proof -
  have "\<not> isl (compute full_answer 0 1 two_atoms)"
    by (simp add: model_eval two_atoms_def full_answer_def plain_answer_def)
  then have c: "compute full_answer 0 1 two_atoms = Inr (projr (compute full_answer 0 1 two_atoms))"
    by simp
  have n: "(1::int) \<noteq> 0" by simp
  from virial_flattened [OF c n] obtain g out v where
    "full_answer g = Inr out" and "map_of out ''virial'' = Some (T3 v)"
    and t: "take 6 (virial (projr (compute full_answer 0 1 two_atoms))) =
      [v ! 0 ! 0 ! 0, v ! 0 ! 1 ! 1, v ! 0 ! 2 ! 2, v ! 0 ! 0 ! 1, v ! 0 ! 0 ! 2, v ! 0 ! 1 ! 2]"
    by blast
  then have "v = [[[11, 12, 13], [12, 22, 23], [13, 23, 33]]]"
    by (auto simp: full_answer_def)
  with t have "take 6 (virial (projr (compute full_answer 0 1 two_atoms))) = [11, 22, 33, 12, 13, 23]"
    by simp
  moreover have "\<not> isl (compute full_answer 0 1 two_atoms)"
    by (subst c) simp
  ultimately show ?thesis by simp
qed

section \<open>The cell\<close>

text \<open>
  C5, as stated, fails: with the upper bound of the first axis below the lower one the
  lattice matrix is built with the diagonal entry \<open>-10\<close> and the per-step compute
  returns a host state.
\<close>

theorem negative_axis_counterexample:
  "fst (domain_boxhi (two_atoms\<lparr>domain_boxhi := (-10, 10, 10)\<rparr>)) -
     fst (domain_boxlo (two_atoms\<lparr>domain_boxhi := (-10, 10, 10)\<rparr>)) = -10 \<and>
   get_cell (two_atoms\<lparr>domain_boxhi := (-10, 10, 10)\<rparr>) = ((-10, 0, 0), (0, 10, 0), (0, 0, 10)) \<and>
   \<not> isl (compute full_answer 0 0 (two_atoms\<lparr>domain_boxhi := (-10, 10, 10)\<rparr>))"
  by (simp add: model_eval two_atoms_def full_answer_def plain_answer_def)

text \<open>
  C5, amended. The construction checks nothing: for every box the lattice matrix has
  the axis lengths \<open>hi - lo\<close> on its diagonal, whatever their sign, and the tilt factors
  below it. Its inversion fails exactly when one of the three axis lengths is zero.
\<close>

theorem cell_geometry:
  "get_cell h =
     ((fst (domain_boxhi h) - fst (domain_boxlo h), 0, 0),
      (domain_xy h, fst (snd (domain_boxhi h)) - fst (snd (domain_boxlo h)), 0),
      (domain_xz h, domain_yz h, snd (snd (domain_boxhi h)) - snd (snd (domain_boxlo h)))) \<and>
   (isl (torch_inverse (get_cell h)) \<longleftrightarrow>
      fst (domain_boxhi h) - fst (domain_boxlo h) = 0 \<or>
      fst (snd (domain_boxhi h)) - fst (snd (domain_boxlo h)) = 0 \<or>
      snd (snd (domain_boxhi h)) - snd (snd (domain_boxlo h)) = 0)"
  by (cases "domain_boxlo h"; cases "domain_boxhi h")
     (auto simp: get_cell_def torch_inverse_def det3_def)


section \<open>The two index maps\<close>

lemma set_range0: "set (range0 n) = {0..n - 1}"
  by (simp add: range0_def)

lemma in_range0: "k \<in> set (range0 n) \<longleftrightarrow> 0 \<le> k \<and> k < n"
  by (auto simp: range0_def)

lemma distinct_range0: "distinct (range0 n)"
  by (simp add: range0_def)

lemma length_range0: "length (range0 n) = nat n"
  by (simp add: range0_def)

lemma store_atom_Inr:
  assumes "store_atom h (t, ty, p) ii = Inr (t', ty', p')"
  shows "0 \<le> elem (atom_tag h) (elem (list_ilist h) ii) - 1"
    and "elem (atom_tag h) (elem (list_ilist h) ii) - 1 < int (length t)"
    and "elem (atom_tag h) (elem (list_ilist h) ii) - 1 < int (length p)"
    and "t' = t[nat (elem (atom_tag h) (elem (list_ilist h) ii) - 1) := elem (list_ilist h) ii]"
    and "p' = p[nat (elem (atom_tag h) (elem (list_ilist h) ii) - 1) :=
                  f32v (elem (atom_x h) (elem (list_ilist h) ii))]"
    and "length ty' = length ty"
    and "0 \<le> elem (list_ilist h) ii"
    and "elem (list_ilist h) ii < int (length (atom_tag h))"
    and "elem (list_ilist h) ii < int (length (atom_x h))"
  using assms
  by (auto simp: store_atom_def bnd_Inr_iff nth_chk_Inr_iff upd_chk_Inr_iff)

lemma store_loop:
  assumes "for_loop (store_atom h) (t, ty, p) iis = Inr (t', ty', p')"
  shows "length t' = length t \<and> length p' = length p \<and>
         (\<forall>ii\<in>set iis. 0 \<le> dense h ii \<and> dense h ii < int (length t) \<and> dense h ii < int (length p) \<and>
             0 \<le> elem (list_ilist h) ii \<and> elem (list_ilist h) ii < int (length (atom_tag h))) \<and>
         (\<forall>d. 0 \<le> d \<longrightarrow>
            (if d \<in> dense h ` set iis
             then \<exists>ii\<in>set iis. dense h ii = d \<and> elem t' d = elem (list_ilist h) ii \<and>
                    elem p' d = f32v (elem (atom_x h) (elem (list_ilist h) ii))
             else elem t' d = elem t d \<and> elem p' d = elem p d))"
  using assms
proof (induction iis arbitrary: t ty p)
  case Nil
  then show ?case by simp
next
  case (Cons k ks)
  from Cons.prems obtain t1 ty1 p1 where
    s: "store_atom h (t, ty, p) k = Inr (t1, ty1, p1)"
    and l: "for_loop (store_atom h) (t1, ty1, p1) ks = Inr (t', ty', p')"
    by (auto simp: bnd_Inr_iff)
  note a = store_atom_Inr [OF s, folded dense_def]
  note ih = Cons.IH [OF l]
  have len: "length t' = length t" "length p' = length p"
    using ih a by simp_all
  have bounds: "\<forall>ii\<in>set (k # ks). 0 \<le> dense h ii \<and> dense h ii < int (length t) \<and>
      dense h ii < int (length p) \<and>
      0 \<le> elem (list_ilist h) ii \<and> elem (list_ilist h) ii < int (length (atom_tag h))"
    using ih a by simp
  have main: "if d \<in> dense h ` set (k # ks)
             then \<exists>ii\<in>set (k # ks). dense h ii = d \<and> elem t' d = elem (list_ilist h) ii \<and>
                    elem p' d = f32v (elem (atom_x h) (elem (list_ilist h) ii))
             else elem t' d = elem t d \<and> elem p' d = elem p d" if d: "0 \<le> d" for d
  proof (cases "d \<in> dense h ` set ks")
    case True
    with ih d show ?thesis by auto
  next
    case False
    with ih d have u: "elem t' d = elem t1 d" "elem p' d = elem p1 d" by auto
    show ?thesis
    proof (cases "d = dense h k")
      case True
      with u a show ?thesis by (auto simp: elem_def)
    next
      case False
      with d a(1) have "nat d \<noteq> nat (dense h k)" by simp
      with u a \<open>d \<notin> dense h ` set ks\<close> False show ?thesis by (auto simp: elem_def)
    qed
  qed
  from len bounds main show ?case by blast
qed


lemma store_loop_bounds:
  assumes "for_loop (store_atom h) (t, ty, p) iis = Inr (t', ty', p')" and "ii \<in> set iis"
  shows "0 \<le> dense h ii" and "dense h ii < int (length t)" and "dense h ii < int (length p)"
    and "0 \<le> elem (list_ilist h) ii" and "elem (list_ilist h) ii < int (length (atom_tag h))"
  using store_loop [OF assms(1), THEN conjunct2, THEN conjunct2, THEN conjunct1, rule_format,
      OF assms(2)]
  by simp_all

lemma store_loop_written:
  assumes "for_loop (store_atom h) (t, ty, p) iis = Inr (t', ty', p')"
    and "0 \<le> d" and "d \<in> dense h ` set iis"
  shows "\<exists>ii\<in>set iis. dense h ii = d \<and> elem t' d = elem (list_ilist h) ii \<and>
           elem p' d = f32v (elem (atom_x h) (elem (list_ilist h) ii))"
  using store_loop [OF assms(1), THEN conjunct2, THEN conjunct2, THEN conjunct2, rule_format,
      OF assms(2)] assms(3)
  by (simp only: if_True)

lemma inj_on_dense:
  assumes "distinct (map (\<lambda>ii. elem (atom_tag h) (elem (list_ilist h) ii)) iis)"
  shows "inj_on (dense h) (set iis)"
proof -
  from assms have "inj_on (\<lambda>ii. elem (atom_tag h) (elem (list_ilist h) ii)) (set iis)"
    by (simp add: distinct_map)
  then show ?thesis by (auto simp: inj_on_def dense_def)
qed

lemma dense_onto:
  assumes st: "store_atoms h = Inr (t, ty, p)" and dist: "distinct (local_tags h)"
  shows "dense h ` set (range0 (list_inum h)) = {0..list_inum h - 1}"
proof (rule card_subset_eq)
  show "finite {0..list_inum h - 1}" by simp
  from st have l: "for_loop (store_atom h)
       (replicate (nat (list_inum h)) 0, replicate (nat (atom_nlocal h)) 0,
        replicate (nat (atom_nlocal h)) (0, 0, 0)) (range0 (list_inum h)) = Inr (t, ty, p)"
    by (simp add: store_atoms_def)
  show "dense h ` set (range0 (list_inum h)) \<subseteq> {0..list_inum h - 1}"
  proof
    fix d assume "d \<in> dense h ` set (range0 (list_inum h))"
    then obtain ii where ii: "ii \<in> set (range0 (list_inum h))" and d: "d = dense h ii" by blast
    from ii have "0 < list_inum h" by (simp add: in_range0)
    moreover from store_loop_bounds(1,2) [OF l ii]
    have "0 \<le> dense h ii" "dense h ii < int (nat (list_inum h))" by simp_all
    ultimately show "d \<in> {0..list_inum h - 1}" using d by simp
  qed
  from dist have "inj_on (dense h) (set (range0 (list_inum h)))"
    unfolding local_tags_def by (rule inj_on_dense)
  then have "card (dense h ` set (range0 (list_inum h))) = card (set (range0 (list_inum h)))"
    by (rule card_image)
  then show "card (dense h ` set (range0 (list_inum h))) = card {0..list_inum h - 1}"
    by (simp add: set_range0)
qed

lemma store_atoms_dense:
  assumes st: "store_atoms h = Inr (t, ty, p)" and dist: "distinct (local_tags h)"
    and ii: "0 \<le> ii" "ii < list_inum h"
  shows "elem t (dense h ii) = elem (list_ilist h) ii"
    and "elem p (dense h ii) = f32v (elem (atom_x h) (elem (list_ilist h) ii))"
    and "0 \<le> dense h ii" and "dense h ii < list_inum h"
proof -
  from st have l: "for_loop (store_atom h)
       (replicate (nat (list_inum h)) 0, replicate (nat (atom_nlocal h)) 0,
        replicate (nat (atom_nlocal h)) (0, 0, 0)) (range0 (list_inum h)) = Inr (t, ty, p)"
    by (simp add: store_atoms_def)
  from ii have mem: "ii \<in> set (range0 (list_inum h))" by (simp add: in_range0)
  note sb = store_loop_bounds [OF l mem]
  from sb show b: "0 \<le> dense h ii" by simp
  from sb have "dense h ii < int (nat (list_inum h))" by simp
  with ii show "dense h ii < list_inum h" by simp
  from mem have "dense h ii \<in> dense h ` set (range0 (list_inum h))" by blast
  from store_loop_written [OF l b this] obtain k where k: "k \<in> set (range0 (list_inum h))" "dense h k = dense h ii"
    "elem t (dense h ii) = elem (list_ilist h) k"
    "elem p (dense h ii) = f32v (elem (atom_x h) (elem (list_ilist h) k))"
    by blast
  from dist have "inj_on (dense h) (set (range0 (list_inum h)))"
    unfolding local_tags_def by (rule inj_on_dense)
  with k(1,2) mem have "k = ii" by (auto dest: inj_onD)
  with k show "elem t (dense h ii) = elem (list_ilist h) ii"
    and "elem p (dense h ii) = f32v (elem (atom_x h) (elem (list_ilist h) ii))" by simp_all
qed

lemma scatter_atom_Inr:
  assumes "scatter_atom tag2i forces ae ut ef (f, ea, unc) k = Inr (f', ea', unc')"
  shows "0 \<le> elem tag2i k"
    and "f' = f[nat (elem tag2i k) := row3 forces k]"
    and "ea' = (if ef \<noteq> 0 then ea[nat (elem tag2i k) := elem (elem ae k) 0] else ea)"
    and "unc' = unc[nat (elem tag2i k) := Some (elem (elem ut k) 0)]"
    and "elem tag2i k < int (length f)"
    and "elem tag2i k < int (length unc)"
    and "ef \<noteq> 0 \<Longrightarrow> elem tag2i k < int (length ea)"
  using assms
  by (auto simp: scatter_atom_def bnd_Inr_iff nth_chk_Inr_iff upd_chk_Inr_iff at2_Inr_iff row3_def
      split: if_splits)

lemma scatter_loop:
  assumes "for_loop (scatter_atom tag2i forces ae ut ef) (f, ea, unc) ks = Inr (f', ea', unc')"
    and "inj_on (elem tag2i) (set ks)"
  shows "(\<forall>d\<in>set ks. elem f' (elem tag2i d) = row3 forces d \<and>
            elem unc' (elem tag2i d) = Some (elem (elem ut d) 0) \<and>
            (ef \<noteq> 0 \<longrightarrow> elem ea' (elem tag2i d) = elem (elem ae d) 0)) \<and>
         (ef = 0 \<longrightarrow> ea' = ea) \<and>
         (\<forall>i. 0 \<le> i \<longrightarrow> i \<notin> elem tag2i ` set ks \<longrightarrow>
            elem f' i = elem f i \<and> elem unc' i = elem unc i \<and> elem ea' i = elem ea i)"
  using assms
proof (induction ks arbitrary: f ea unc)
  case Nil
  then show ?case by simp
next
  case (Cons k ks)
  from Cons.prems(1) obtain f1 ea1 unc1 where
    s: "scatter_atom tag2i forces ae ut ef (f, ea, unc) k = Inr (f1, ea1, unc1)"
    and l: "for_loop (scatter_atom tag2i forces ae ut ef) (f1, ea1, unc1) ks = Inr (f', ea', unc')"
    by (auto simp: bnd_Inr_iff)
  note a = scatter_atom_Inr [OF s]
  from Cons.prems(2) have inj: "inj_on (elem tag2i) (set ks)" by (simp add: inj_on_def)
  note ih = Cons.IH [OF l inj]
  have other: "elem f' i = elem f1 i \<and> elem unc' i = elem unc1 i \<and> elem ea' i = elem ea1 i"
    if "0 \<le> i" "i \<notin> elem tag2i ` set ks" for i
    using ih that by blast
  have written: "elem f' (elem tag2i d) = row3 forces d \<and>
            elem unc' (elem tag2i d) = Some (elem (elem ut d) 0) \<and>
            (ef \<noteq> 0 \<longrightarrow> elem ea' (elem tag2i d) = elem (elem ae d) 0)"
    if d: "d \<in> set (k # ks)" for d
  proof (cases "d \<in> set ks")
    case True
    with ih show ?thesis by blast
  next
    case False
    with d have dk: "d = k" by simp
    from False dk Cons.prems(2) have "elem tag2i k \<notin> elem tag2i ` set ks"
      by (auto simp: inj_on_def)
    from other [OF a(1) this] a dk show ?thesis by (auto simp: elem_def)
  qed
  have frame: "elem f' i = elem f i \<and> elem unc' i = elem unc i \<and> elem ea' i = elem ea i"
    if i: "0 \<le> i" "i \<notin> elem tag2i ` set (k # ks)" for i
  proof -
    from i have "i \<notin> elem tag2i ` set ks" and ne: "i \<noteq> elem tag2i k" by auto
    from i(1) ne a(1) have "nat i \<noteq> nat (elem tag2i k)" by simp
    with other [OF i(1) \<open>i \<notin> elem tag2i ` set ks\<close>] a show ?thesis by (simp add: elem_def)
  qed
  have ea0: "ef = 0 \<longrightarrow> ea' = ea" using ih a(3) by simp
  from written frame ea0 show ?case by blast
qed


lemma round_trip:
  assumes st: "store_atoms h = Inr (tag2i, tag2type, pos)" and dist: "distinct (local_tags h)"
    and d: "0 \<le> d" "d < list_inum h"
  shows "elem (atom_tag h) (elem tag2i d) - 1 = d"
proof -
  from d have "d \<in> {0..list_inum h - 1}" by simp
  then have "d \<in> dense h ` set (range0 (list_inum h))"
    by (simp only: dense_onto [OF st dist])
  then obtain ii where
    ii: "ii \<in> set (range0 (list_inum h))" and e: "dense h ii = d" by (auto simp: image_iff)
  from ii have "0 \<le> ii" "ii < list_inum h" by (simp_all add: in_range0)
  from store_atoms_dense(1) [OF st dist this] e have "elem tag2i d = elem (list_ilist h) ii"
    by simp
  with e show ?thesis by (simp add: dense_def)
qed

lemma compute_Inr:
  assumes "compute model eflag vflag h = Inr h'"
  shows "\<exists>h1 st acc out. pair_edges (grow h) = Inr (h1, st, acc) \<and>
           model (make_input st (get_cell h1) acc) = Inr out \<and>
           scatter vflag h1 (fst st) out = Inr h'"
  using assms by (auto simp: compute_def Let_def bnd_Inr_iff split: if_splits)

lemma store_atoms_message: "store_atoms (no_edges_message h) = store_atoms h"
proof -
  have "store_atom (no_edges_message h) = store_atom h"
    by (simp add: fun_eq_iff store_atom_def no_edges_message_def)
  then show ?thesis by (simp add: store_atoms_def no_edges_message_def)
qed

lemma store_atoms_grow: "store_atoms (grow h) = store_atoms h"
proof -
  have "store_atom (grow h) = store_atom h"
    by (simp add: fun_eq_iff store_atom_def grow_def)
  then show ?thesis by (simp add: store_atoms_def grow_def)
qed

lemma pair_edges_store:
  assumes "pair_edges h = Inr (h1, st, acc)"
  shows "store_atoms h = Inr st"
  using assms
  by (auto simp: pair_edges_def bnd_Inr_iff Let_def store_atoms_message split: if_splits)

lemma write_back_Inr:
  assumes "write_back tag2i forces energies unc_t h = Inr h'"
  shows "for_loop (scatter_atom tag2i forces energies unc_t (eflag_atom h))
           (atom_f h, eatom h, uncertainties h) (range0 (list_inum h)) =
         Inr (atom_f h', eatom h', uncertainties h')"
  using assms by (auto simp: write_back_def bnd_Inr_iff)

text \<open>What a returning compute has done, in terms of the local atoms.\<close>

lemma compute_scattered:
  assumes c: "compute model eflag vflag h = Inr h'" and dist: "distinct (local_tags h)"
  shows "\<exists>g out forces energies unc_t.
           model g = Inr out \<and>
           map_of out ''forces'' = Some (T2 forces) \<and>
           map_of out ''atomic_energy'' = Some (T2 energies) \<and>
           map_of out ''uncertainties'' = Some (T2 unc_t) \<and>
           (eflag_atom h = 0 \<longrightarrow> eatom h' = eatom h) \<and>
           (\<forall>ii\<in>set (range0 (list_inum h)).
              elem (atom_f h') (elem (list_ilist h) ii) = row3 forces (dense h ii) \<and>
              elem (uncertainties h') (elem (list_ilist h) ii) =
                Some (elem (elem unc_t (dense h ii)) 0) \<and>
              (eflag_atom h \<noteq> 0 \<longrightarrow>
                 elem (eatom h') (elem (list_ilist h) ii) = elem (elem energies (dense h ii)) 0))"
proof -
  from compute_Inr [OF c] obtain h1 st acc out where
    pe: "pair_edges (grow h) = Inr (h1, st, acc)"
    and m: "model (make_input st (get_cell h1) acc) = Inr out"
    and sc: "scatter vflag h1 (fst st) out = Inr h'" by blast
  obtain tag2i ty pos where st: "st = (tag2i, ty, pos)" by (cases st)
  from pair_edges_store [OF pe] st have sa: "store_atoms h = Inr (tag2i, ty, pos)"
    by (simp add: store_atoms_grow)
  from pair_edges_host [OF pe] have same: "eflag_atom h1 = eflag_atom h" "list_inum h1 = list_inum h"
    "eatom h1 = eatom h"
    by (auto simp: grow_def no_edges_message_def)
  from scatter_Inr [OF sc] st obtain forces e energies unc_t h2 where
    k: "map_of out ''forces'' = Some (T2 forces)"
      "map_of out ''atomic_energy'' = Some (T2 energies)"
      "map_of out ''uncertainties'' = Some (T2 unc_t)"
    and vb: "virial_block vflag out (h1\<lparr>eng_vdwl := e\<rparr>) = Inr h2"
    and wb: "write_back tag2i forces energies unc_t h2 = Inr h'"
    by auto
  from virial_block_Inr [OF vb] same have same2: "eflag_atom h2 = eflag_atom h"
    "list_inum h2 = list_inum h" "eatom h2 = eatom h"
    by auto
  from write_back_Inr [OF wb] same2
  have l: "for_loop (scatter_atom tag2i forces energies unc_t (eflag_atom h))
           (atom_f h2, eatom h, uncertainties h2) (range0 (list_inum h)) =
         Inr (atom_f h', eatom h', uncertainties h')" by simp
  have inj: "inj_on (elem tag2i) (set (range0 (list_inum h)))"
  proof (rule inj_onI)
    fix a b assume a: "a \<in> set (range0 (list_inum h))" and b: "b \<in> set (range0 (list_inum h))"
      and eq: "elem tag2i a = elem tag2i b"
    from a b have "0 \<le> a" "a < list_inum h" "0 \<le> b" "b < list_inum h"
      by (simp_all add: in_range0)
    note ra = round_trip [OF sa dist this(1,2)] and rb = round_trip [OF sa dist this(3,4)]
    have "a = elem (atom_tag h) (elem tag2i a) - 1" by (simp only: ra)
    also have "\<dots> = elem (atom_tag h) (elem tag2i b) - 1" by (simp only: eq)
    also have "\<dots> = b" by (simp only: rb)
    finally show "a = b" .
  qed
  note sl = scatter_loop [OF l inj]
  have each: "elem (atom_f h') (elem (list_ilist h) ii) = row3 forces (dense h ii) \<and>
              elem (uncertainties h') (elem (list_ilist h) ii) =
                Some (elem (elem unc_t (dense h ii)) 0) \<and>
              (eflag_atom h \<noteq> 0 \<longrightarrow>
                 elem (eatom h') (elem (list_ilist h) ii) = elem (elem energies (dense h ii)) 0)"
    if ii: "ii \<in> set (range0 (list_inum h))" for ii
  proof -
    from ii have b: "0 \<le> ii" "ii < list_inum h" by (simp_all add: in_range0)
    note sd = store_atoms_dense [OF sa dist b]
    from sd(3,4) have "dense h ii \<in> set (range0 (list_inum h))" by (simp add: in_range0)
    from sl [THEN conjunct1, rule_format, OF this] sd(1) show ?thesis by simp
  qed
  from sl [THEN conjunct2, THEN conjunct1]
  have "eflag_atom h = 0 \<longrightarrow> eatom h' = eatom h" .
  moreover from each have "\<forall>ii\<in>set (range0 (list_inum h)).
              elem (atom_f h') (elem (list_ilist h) ii) = row3 forces (dense h ii) \<and>
              elem (uncertainties h') (elem (list_ilist h) ii) =
                Some (elem (elem unc_t (dense h ii)) 0) \<and>
              (eflag_atom h \<noteq> 0 \<longrightarrow>
                 elem (eatom h') (elem (list_ilist h) ii) = elem (elem energies (dense h ii)) 0)"
    by (rule ballI)
  ultimately show ?thesis using m k by (intro exI conjI) assumption+
qed




section \<open>The scatter of forces, energies and uncertainties\<close>

text \<open>
  C10. Let the tags of the local atoms be pairwise distinct. When the per-step compute
  returns, the force of every local atom is the row of the model's forces at the atom's
  dense index, whatever the force was before; the per-atom energies are the array of
  before when the per-atom energy flag is clear, and the model's per-node energy when it
  is set.
\<close>

theorem forces_overwritten:
  assumes "compute model eflag vflag h = Inr h'" and "distinct (local_tags h)"
  shows "\<exists>g out forces energies.
           model g = Inr out \<and>
           map_of out ''forces'' = Some (T2 forces) \<and>
           map_of out ''atomic_energy'' = Some (T2 energies) \<and>
           (eflag_atom h = 0 \<longrightarrow> eatom h' = eatom h) \<and>
           (\<forall>ii\<in>set (range0 (list_inum h)).
              elem (atom_f h') (elem (list_ilist h) ii) = row3 forces (dense h ii) \<and>
              (eflag_atom h \<noteq> 0 \<longrightarrow>
                 elem (eatom h') (elem (list_ilist h) ii) = elem (elem energies (dense h ii)) 0))"
proof -
  from compute_scattered [OF assms] obtain g out forces energies unc_t where
    "model g = Inr out" "map_of out ''forces'' = Some (T2 forces)"
    "map_of out ''atomic_energy'' = Some (T2 energies)"
    "eflag_atom h = 0 \<longrightarrow> eatom h' = eatom h"
    and a: "\<forall>ii\<in>set (range0 (list_inum h)).
              elem (atom_f h') (elem (list_ilist h) ii) = row3 forces (dense h ii) \<and>
              elem (uncertainties h') (elem (list_ilist h) ii) =
                Some (elem (elem unc_t (dense h ii)) 0) \<and>
              (eflag_atom h \<noteq> 0 \<longrightarrow>
                 elem (eatom h') (elem (list_ilist h) ii) = elem (elem energies (dense h ii)) 0)"
    by blast
  moreover from a have "\<forall>ii\<in>set (range0 (list_inum h)).
              elem (atom_f h') (elem (list_ilist h) ii) = row3 forces (dense h ii) \<and>
              (eflag_atom h \<noteq> 0 \<longrightarrow>
                 elem (eatom h') (elem (list_ilist h) ii) = elem (elem energies (dense h ii)) 0)"
    by simp
  ultimately show ?thesis by (intro exI conjI) assumption+
qed

theorem forces_overwritten_witness:
  "\<not> isl (compute full_answer 0 0 two_atoms) \<and> distinct (local_tags two_atoms) \<and>
   elem (atom_f (projr (compute full_answer 0 0 two_atoms))) 0 = (1, 2, 3) \<and>
   elem (atom_f (projr (compute full_answer 0 0 two_atoms))) 1 = (4, 5, 6) \<and>
   eatom (projr (compute full_answer 0 0 two_atoms)) = eatom two_atoms"
proof -
  have "\<not> isl (compute full_answer 0 0 two_atoms)"
    by (simp add: model_eval two_atoms_def full_answer_def plain_answer_def)
  then have c: "compute full_answer 0 0 two_atoms = Inr (projr (compute full_answer 0 0 two_atoms))"
    by simp
  have dist: "distinct (local_tags two_atoms)" by (simp add: model_eval two_atoms_def full_answer_def plain_answer_def)
  from forces_overwritten [OF c dist] obtain g out forces where
    m: "full_answer g = Inr out" and k: "map_of out ''forces'' = Some (T2 forces)"
    and e: "eflag_atom two_atoms = 0 \<longrightarrow> eatom (projr (compute full_answer 0 0 two_atoms)) = eatom two_atoms"
    and a: "\<forall>ii\<in>set (range0 (list_inum two_atoms)).
              elem (atom_f (projr (compute full_answer 0 0 two_atoms))) (elem (list_ilist two_atoms) ii) =
                row3 forces (dense two_atoms ii)"
    by blast
  from m k have f: "forces = [[1, 2, 3], [4, 5, 6]]" by (auto simp: full_answer_def)
  have r: "set (range0 (list_inum two_atoms)) = {0, 1}" "elem (list_ilist two_atoms) 0 = 0"
    "elem (list_ilist two_atoms) 1 = 1" "dense two_atoms 0 = 0" "dense two_atoms 1 = 1"
    by (auto simp: two_atoms_def in_range0 elem_def dense_def)
  from a r have "elem (atom_f (projr (compute full_answer 0 0 two_atoms))) 0 = row3 forces 0"
    "elem (atom_f (projr (compute full_answer 0 0 two_atoms))) 1 = row3 forces 1"
    by auto
  then have "elem (atom_f (projr (compute full_answer 0 0 two_atoms))) 0 = (1, 2, 3)"
    "elem (atom_f (projr (compute full_answer 0 0 two_atoms))) 1 = (4, 5, 6)"
    by (simp_all add: f row3_def elem_def)
  moreover from e have "eatom (projr (compute full_answer 0 0 two_atoms)) = eatom two_atoms"
    by (simp add: two_atoms_def)
  moreover have "\<not> isl (compute full_answer 0 0 two_atoms)" by (subst c) simp
  ultimately show ?thesis using dist by simp
qed

text \<open>
  C9, as stated, fails: the same configuration completes with a response that carries
  the uncertainties, and ends in the exception of the missing key with a response that
  does not.
\<close>

theorem uncertainties_optional_counterexample:
  "\<not> isl (compute full_answer 0 0 two_atoms) \<and>
   compute plain_answer 0 0 two_atoms = Inl (MissingKey ''uncertainties'')"
  by (simp add: model_eval two_atoms_def full_answer_def plain_answer_def)

text \<open>
  C9, amended. The tensor named \<open>uncertainties\<close> is a required output: whenever the
  per-step compute returns, the model has answered with a rank-2 tensor under that name,
  and, the tags of the local atoms being distinct, the slot of every local atom in the
  per-atom array holds the first entry of the atom's row.
\<close>

theorem uncertainties_required:
  assumes "compute model eflag vflag h = Inr h'"
  shows "\<exists>g out unc_t.
           model g = Inr out \<and> map_of out ''uncertainties'' = Some (T2 unc_t) \<and>
           (distinct (local_tags h) \<longrightarrow>
             (\<forall>ii\<in>set (range0 (list_inum h)).
                elem (uncertainties h') (elem (list_ilist h) ii) =
                  Some (elem (elem unc_t (dense h ii)) 0)))"
proof (cases "distinct (local_tags h)")
  case True
  from compute_scattered [OF assms True] obtain g out unc_t where
    "model g = Inr out" "map_of out ''uncertainties'' = Some (T2 unc_t)"
    "\<forall>ii\<in>set (range0 (list_inum h)).
                elem (uncertainties h') (elem (list_ilist h) ii) =
                  Some (elem (elem unc_t (dense h ii)) 0)"
    by blast
  then show ?thesis by blast
next
  case False
  from compute_Inr [OF assms] obtain h1 st acc out where
    m: "model (make_input st (get_cell h1) acc) = Inr out"
    and sc: "scatter vflag h1 (fst st) out = Inr h'" by blast
  from scatter_Inr [OF sc] obtain unc_t where "map_of out ''uncertainties'' = Some (T2 unc_t)"
    by blast
  with m False show ?thesis by blast
qed

theorem uncertainties_required_witness:
  "\<not> isl (compute full_answer 0 0 two_atoms) \<and> distinct (local_tags two_atoms) \<and>
   elem (uncertainties (projr (compute full_answer 0 0 two_atoms))) 0 = Some (1 / 2) \<and>
   elem (uncertainties (projr (compute full_answer 0 0 two_atoms))) 1 = Some (1 / 4)"
proof -
  have "\<not> isl (compute full_answer 0 0 two_atoms)"
    by (simp add: model_eval two_atoms_def full_answer_def plain_answer_def)
  then have c: "compute full_answer 0 0 two_atoms = Inr (projr (compute full_answer 0 0 two_atoms))"
    by simp
  have dist: "distinct (local_tags two_atoms)" by (simp add: model_eval two_atoms_def full_answer_def plain_answer_def)
  from uncertainties_required [OF c] dist obtain g out unc_t where
    m: "full_answer g = Inr out" and k: "map_of out ''uncertainties'' = Some (T2 unc_t)"
    and a: "\<forall>ii\<in>set (range0 (list_inum two_atoms)).
              elem (uncertainties (projr (compute full_answer 0 0 two_atoms)))
                (elem (list_ilist two_atoms) ii) = Some (elem (elem unc_t (dense two_atoms ii)) 0)"
    by blast
  from m k have u: "unc_t = [[1 / 2], [1 / 4]]" by (auto simp: full_answer_def)
  have r: "set (range0 (list_inum two_atoms)) = {0, 1}" "elem (list_ilist two_atoms) 0 = 0"
    "elem (list_ilist two_atoms) 1 = 1" "dense two_atoms 0 = 0" "dense two_atoms 1 = 1"
    by (auto simp: two_atoms_def in_range0 elem_def dense_def)
  from a r have "elem (uncertainties (projr (compute full_answer 0 0 two_atoms))) 0 =
      Some (elem (elem unc_t 0) 0)"
    "elem (uncertainties (projr (compute full_answer 0 0 two_atoms))) 1 =
      Some (elem (elem unc_t 1) 0)"
    by auto
  then have "elem (uncertainties (projr (compute full_answer 0 0 two_atoms))) 0 = Some (1 / 2)"
    "elem (uncertainties (projr (compute full_answer 0 0 two_atoms))) 1 = Some (1 / 4)"
    by (simp_all add: u elem_def)
  moreover have "\<not> isl (compute full_answer 0 0 two_atoms)" by (subst c) simp
  ultimately show ?thesis using dist by simp
qed


section \<open>The edge list\<close>

lemma for_loop_append:
  assumes "\<And>s k s'. body s k = Inr s' \<Longrightarrow> s' = s @ F k"
    and "for_loop body s ks = Inr s'"
  shows "s' = s @ concat (map F ks)"
  using assms(2)
proof (induction ks arbitrary: s)
  case Nil
  then show ?case by simp
next
  case (Cons k ks)
  from Cons.prems obtain s1 where b: "body s k = Inr s1" and l: "for_loop body s1 ks = Inr s'"
    by (auto simp: bnd_Inr_iff)
  from assms(1) [OF b] Cons.IH [OF l] show ?case by simp
qed

lemma emit_edge_Inr:
  assumes "emit_edge inv_t nedges acc itag jtag ps = Inr acc'"
  shows "acc' = acc @ [((itag - 1, jtag - 1), round3 (matvec inv_t ps))]"
  using assms by (auto simp: emit_edge_def split: if_splits)

lemma pair_neighbor_Inr:
  assumes "pair_neighbor h pos inv_t nedges i (elem (atom_tag h) i) jlist acc jj = Inr acc'"
  shows "acc' = acc @ map (entry_edge h pos inv_t)
                        (filter (within_cutoff h) [(i, elem jlist jj AND NEIGHMASK h)])"
  using assms
  by (auto simp: pair_neighbor_def bnd_Inr_iff nth_chk_Inr_iff Let_def within_cutoff_def
      entry_edge_def dense_edge_def image_shift_def displacement_def
      dest: emit_edge_Inr split: if_splits)


lemma concat_singletons:
  "concat (map (\<lambda>k. map f (filter P [g k])) ks) = map f (filter P (map g ks))"
  by (induction ks) simp_all

lemma edge_atom_Inr:
  assumes v: "\<And>i jlist acc jj acc'.
      visit i (elem (atom_tag h) i) jlist acc jj = Inr acc' \<Longrightarrow>
      acc' = acc @ map (entry_edge h pos inv_t)
                     (filter (within_cutoff h) [(i, elem jlist jj AND NEIGHMASK h)])"
    and e: "edge_atom visit h acc ii = Inr acc'"
  shows "acc' = acc @ map (entry_edge h pos inv_t) (filter (within_cutoff h)
           (map (\<lambda>jj. (elem (list_ilist h) ii,
                        elem (elem (list_firstneigh h) (elem (list_ilist h) ii)) jj AND NEIGHMASK h))
             (range0 (elem (list_numneigh h) (elem (list_ilist h) ii)))))"
proof -
  from e have l: "for_loop
      (visit (elem (list_ilist h) ii) (elem (atom_tag h) (elem (list_ilist h) ii))
         (elem (list_firstneigh h) (elem (list_ilist h) ii)))
      acc (range0 (elem (list_numneigh h) (elem (list_ilist h) ii))) = Inr acc'"
    by (auto simp: edge_atom_def bnd_Inr_iff nth_chk_Inr_iff)
  from for_loop_append [OF v l] show ?thesis by (simp only: concat_singletons)
qed

lemma edge_loop:
  assumes v: "\<And>i jlist acc jj acc'.
      visit i (elem (atom_tag h) i) jlist acc jj = Inr acc' \<Longrightarrow>
      acc' = acc @ map (entry_edge h pos inv_t)
                     (filter (within_cutoff h) [(i, elem jlist jj AND NEIGHMASK h)])"
    and l: "for_loop (edge_atom visit h) [] (range0 n) = Inr acc"
  shows "acc = map (entry_edge h pos inv_t) (filter (within_cutoff h) (neighbor_entries h n))"
proof -
  from for_loop_append [OF edge_atom_Inr [OF v] l]
  show ?thesis
    by (simp add: neighbor_entries_def filter_concat map_concat comp_def)
qed


lemma message_spec:
  "within_cutoff (no_edges_message h) = within_cutoff h"
  "neighbor_entries (no_edges_message h) = neighbor_entries h"
  "entry_edge (no_edges_message h) = entry_edge h"
  "get_cell (no_edges_message h) = get_cell h"
  "atom_nlocal (no_edges_message h) = atom_nlocal h"
  by (simp_all add: fun_eq_iff within_cutoff_def neighbor_entries_def entry_edge_def
      dense_edge_def image_shift_def displacement_def get_cell_def no_edges_message_def)

lemma grow_spec:
  "within_cutoff (grow h) = within_cutoff h"
  "neighbor_entries (grow h) = neighbor_entries h"
  "entry_edge (grow h) = entry_edge h"
  "get_cell (grow h) = get_cell h"
  "atom_nlocal (grow h) = atom_nlocal h"
  by (simp_all add: fun_eq_iff within_cutoff_def neighbor_entries_def entry_edge_def
      dense_edge_def image_shift_def displacement_def get_cell_def grow_def)

lemma pair_edges_Inr:
  assumes "pair_edges h = Inr (h', (tag2i, ty, pos), acc)"
  shows "\<exists>inv. torch_inverse (get_cell h) = Inr inv \<and>
           acc = map (entry_edge h pos (transpose3 inv))
                   (filter (within_cutoff h) (neighbor_entries h (atom_nlocal h))) \<and>
           acc \<noteq> []"
proof -
  from assms obtain nedges inv where
    inv: "torch_inverse (get_cell h') = Inr inv"
    and l: "for_loop (edge_atom (pair_neighbor h' pos (transpose3 inv) nedges) h') []
              (range0 (atom_nlocal h')) = Inr acc"
    and ne: "acc \<noteq> []"
    and h': "h' = (if nedges = 0 then no_edges_message h else h)"
    by (auto simp: pair_edges_def bnd_Inr_iff Let_def split: if_splits)
  have "acc = map (entry_edge h' pos (transpose3 inv))
                (filter (within_cutoff h') (neighbor_entries h' (atom_nlocal h')))"
    by (rule edge_loop [OF _ l]) (rule pair_neighbor_Inr)
  with inv ne h' show ?thesis by (cases "nedges = 0") (simp_all add: message_spec)
qed







section \<open>The periodic shifts\<close>

text \<open>
  The model of the rounding and of the inverse agrees with their meaning: \<open>std_round\<close>
  is within one half of its argument and fixes the integers, the inverse undoes the
  matrix, and a displacement that is an integer combination of the lattice vectors is
  mapped back to its coefficients.
\<close>

lemma std_round_nearest: "\<bar>std_round r - r\<bar> \<le> 1 / 2"
proof (cases "0 \<le> r")
  case True
  have "of_int \<lfloor>r + 1 / 2\<rfloor> \<le> r + 1 / 2" "r + 1 / 2 < of_int \<lfloor>r + 1 / 2\<rfloor> + 1"
    by linarith+
  then have "\<bar>of_int \<lfloor>r + 1 / 2\<rfloor> - r\<bar> \<le> 1 / 2" by linarith
  with True show ?thesis by (simp only: std_round_def if_True)
next
  case False
  have "r - 1 / 2 \<le> of_int \<lceil>r - 1 / 2\<rceil>" "of_int \<lceil>r - 1 / 2\<rceil> < r - 1 / 2 + 1"
    by linarith+
  then have "\<bar>of_int \<lceil>r - 1 / 2\<rceil> - r\<bar> \<le> 1 / 2" by linarith
  with False show ?thesis by (simp only: std_round_def if_False)
qed

lemma std_round_of_int: "std_round (of_int n) = of_int n"
proof -
  have "\<lfloor>real_of_int n + 1 / 2\<rfloor> = n" "\<lceil>real_of_int n - 1 / 2\<rceil> = n"
    by linarith+
  then show ?thesis by (simp add: std_round_def)
qed

lemma torch_inverse_left:
  assumes "torch_inverse m = Inr n"
  shows "matvec n (matvec m v) = v"
proof -
  obtain a b c d e f g h i where m: "m = ((a, b, c), (d, e, f), (g, h, i))"
    by (metis prod_cases3)
  obtain v0 v1 v2 where v: "v = (v0, v1, v2)" by (metis prod_cases3)
  define D where "D = det3 m"
  have D: "D = a * (e * i - f * h) - b * (d * i - f * g) + c * (d * h - e * g)"
    by (simp add: D_def det3_def m)
  from assms m have Dnz: "D \<noteq> 0" by (auto simp: torch_inverse_def D_def split: if_splits)
  from assms m Dnz have n: "n = (((e * i - f * h) / D, (c * h - b * i) / D, (b * f - c * e) / D),
                  ((f * g - d * i) / D, (a * i - c * g) / D, (c * d - a * f) / D),
                  ((d * h - e * g) / D, (b * g - a * h) / D, (a * e - b * d) / D))"
    by (auto simp: torch_inverse_def D_def)
  have c0: "(e * i - f * h) / D * (a * v0 + b * v1 + c * v2) +
            (c * h - b * i) / D * (d * v0 + e * v1 + f * v2) +
            (b * f - c * e) / D * (g * v0 + h * v1 + i * v2) = v0"
  proof -
    have k: "(e * i - f * h) * (a * v0 + b * v1 + c * v2) +
          (c * h - b * i) * (d * v0 + e * v1 + f * v2) +
          (b * f - c * e) * (g * v0 + h * v1 + i * v2) = v0 * D"
      unfolding D by (simp add: algebra_simps)
    have "(e * i - f * h) / D * (a * v0 + b * v1 + c * v2) +
          (c * h - b * i) / D * (d * v0 + e * v1 + f * v2) +
          (b * f - c * e) / D * (g * v0 + h * v1 + i * v2) =
          ((e * i - f * h) * (a * v0 + b * v1 + c * v2) +
           (c * h - b * i) * (d * v0 + e * v1 + f * v2) +
           (b * f - c * e) * (g * v0 + h * v1 + i * v2)) / D"
      by (simp add: add_divide_distrib)
    also have "\<dots> = v0 * D / D" by (simp only: k)
    also have "\<dots> = v0" using Dnz by simp
    finally show ?thesis .
  qed
  have c1: "(f * g - d * i) / D * (a * v0 + b * v1 + c * v2) +
            (a * i - c * g) / D * (d * v0 + e * v1 + f * v2) +
            (c * d - a * f) / D * (g * v0 + h * v1 + i * v2) = v1"
  proof -
    have k: "(f * g - d * i) * (a * v0 + b * v1 + c * v2) +
          (a * i - c * g) * (d * v0 + e * v1 + f * v2) +
          (c * d - a * f) * (g * v0 + h * v1 + i * v2) = v1 * D"
      unfolding D by (simp add: algebra_simps)
    have "(f * g - d * i) / D * (a * v0 + b * v1 + c * v2) +
          (a * i - c * g) / D * (d * v0 + e * v1 + f * v2) +
          (c * d - a * f) / D * (g * v0 + h * v1 + i * v2) =
          ((f * g - d * i) * (a * v0 + b * v1 + c * v2) +
           (a * i - c * g) * (d * v0 + e * v1 + f * v2) +
           (c * d - a * f) * (g * v0 + h * v1 + i * v2)) / D"
      by (simp add: add_divide_distrib)
    also have "\<dots> = v1 * D / D" by (simp only: k)
    also have "\<dots> = v1" using Dnz by simp
    finally show ?thesis .
  qed
  have c2: "(d * h - e * g) / D * (a * v0 + b * v1 + c * v2) +
            (b * g - a * h) / D * (d * v0 + e * v1 + f * v2) +
            (a * e - b * d) / D * (g * v0 + h * v1 + i * v2) = v2"
  proof -
    have k: "(d * h - e * g) * (a * v0 + b * v1 + c * v2) +
          (b * g - a * h) * (d * v0 + e * v1 + f * v2) +
          (a * e - b * d) * (g * v0 + h * v1 + i * v2) = v2 * D"
      unfolding D by (simp add: algebra_simps)
    have "(d * h - e * g) / D * (a * v0 + b * v1 + c * v2) +
          (b * g - a * h) / D * (d * v0 + e * v1 + f * v2) +
          (a * e - b * d) / D * (g * v0 + h * v1 + i * v2) =
          ((d * h - e * g) * (a * v0 + b * v1 + c * v2) +
           (b * g - a * h) * (d * v0 + e * v1 + f * v2) +
           (a * e - b * d) * (g * v0 + h * v1 + i * v2)) / D"
      by (simp add: add_divide_distrib)
    also have "\<dots> = v2 * D / D" by (simp only: k)
    also have "\<dots> = v2" using Dnz by simp
    finally show ?thesis .
  qed
  show ?thesis unfolding n m v matvec_def by (simp only: prod.case c0 c1 c2)
qed


lemma transpose3_inverse:
  assumes "torch_inverse m = Inr n"
  shows "torch_inverse (transpose3 m) = Inr (transpose3 n)"
proof -
  obtain a b c d e f g h i where m: "m = ((a, b, c), (d, e, f), (g, h, i))"
    by (metis prod_cases3)
  have d: "det3 (transpose3 m) = det3 m"
    by (simp add: m det3_def transpose3_def algebra_simps)
  from assms show ?thesis
    unfolding m torch_inverse_def transpose3_def d [unfolded m transpose3_def, simplified]
    by (auto simp: det3_def algebra_simps split: if_splits)
qed

lemma lattice_offset_recovered:
  assumes "torch_inverse c = Inr ci"
  shows "round3 (matvec (transpose3 ci)
           (matvec (transpose3 c) (of_int n0, of_int n1, of_int n2))) =
         (of_int n0, of_int n1, of_int n2)"
  by (simp only: torch_inverse_left [OF transpose3_inverse [OF assms]] round3_def prod.case
      std_round_of_int)





section \<open>No edges\<close>

lemma bnd_Inl_iff: "bnd m k = Inl e \<longleftrightarrow> m = Inl e \<or> (\<exists>v. m = Inr v \<and> k v = Inl e)"
  by (cases m) (simp_all add: bnd_def)

lemma nth_chk_Inl: "nth_chk xs i = Inl e \<Longrightarrow> e = OutOfBounds"
  by (simp add: nth_chk_def split: if_splits)

lemma upd_chk_Inl: "upd_chk xs i v = Inl e \<Longrightarrow> e = OutOfBounds"
  by (simp add: upd_chk_def split: if_splits)

lemma for_loop_Inl:
  assumes "\<And>s k. body s k = Inl e \<Longrightarrow> P"
    and "for_loop body s ks = Inl e"
  shows P
  using assms(2)
proof (induction ks arbitrary: s)
  case Nil
  then show ?case by simp
next
  case (Cons k ks)
  then show ?case using assms(1) by (auto simp: bnd_Inl_iff)
qed

lemma store_atom_Inl: "store_atom h st ii = Inl e \<Longrightarrow> e = OutOfBounds"
  by (cases st)
     (auto simp: store_atom_def bnd_Inl_iff dest: nth_chk_Inl upd_chk_Inl)

lemma store_atoms_Inl: "store_atoms h = Inl e \<Longrightarrow> e = OutOfBounds"
  unfolding store_atoms_def by (erule for_loop_Inl [rotated]) (rule store_atom_Inl)

lemma emit_edge_Inl: "emit_edge inv_t nedges acc itag jtag ps = Inl e \<Longrightarrow> e = OutOfBounds"
  by (simp add: emit_edge_def split: if_splits)

lemma pair_neighbor_Inl:
  "pair_neighbor h pos inv_t nedges i itag jlist acc jj = Inl e \<Longrightarrow> e = OutOfBounds"
  by (auto simp: pair_neighbor_def bnd_Inl_iff Let_def dest: nth_chk_Inl emit_edge_Inl
      split: if_splits)

lemma edge_atom_pair_Inl:
  "edge_atom (pair_neighbor h pos inv_t nedges) h acc ii = Inl e \<Longrightarrow> e = OutOfBounds"
  by (auto simp: edge_atom_def bnd_Inl_iff dest: nth_chk_Inl
      elim: for_loop_Inl [rotated] dest: pair_neighbor_Inl)

lemma pair_edges_Inl:
  assumes "pair_edges h = Inl e"
  shows "e = OutOfBounds \<or> e = SingularMatrix \<or> e = NoEdgesDetected"
proof -
  have acc: "accumulate xs n = Inl e \<Longrightarrow> e = OutOfBounds" for xs n
    by (simp add: accumulate_def split: if_splits)
  have inv: "torch_inverse m = Inl e \<Longrightarrow> e = SingularMatrix" for m
    by (cases m) (auto simp: torch_inverse_def split: if_splits)
  have loop: "for_loop (edge_atom (pair_neighbor h1 pos inv_t nedges) h1) [] ks = Inl e \<Longrightarrow>
      e = OutOfBounds" for h1 pos inv_t nedges ks
    by (erule for_loop_Inl [rotated]) (rule edge_atom_pair_Inl)
  from assms show ?thesis
    by (auto simp: pair_edges_def bnd_Inl_iff Let_def
        dest: acc inv loop store_atoms_Inl split: if_splits)
qed

text \<open>
  C4. When no entry of the local atoms' neighbour lists passes the cutoff test, the
  per-step compute ends in one and the same error for every model and every pair of
  flags, so the model plays no part in it and no host state is returned; the error is the
  zero-edge error unless an earlier step of the graph construction has already failed.
\<close>

theorem zero_edges_fatal:
  assumes "filter (within_cutoff h) (neighbor_entries h (atom_nlocal h)) = []"
  shows "\<exists>e. (\<forall>model eflag vflag. compute model eflag vflag h = Inl e) \<and>
           (e = NoEdgesDetected \<or> e = RequiresNewtonOff \<or> e = AssertionFailed \<or>
            e = OutOfBounds \<or> e = SingularMatrix)"
proof -
  have no: "pair_edges (grow h) \<noteq> Inr r" for r
  proof
    assume pe: "pair_edges (grow h) = Inr r"
    then have "pair_edges (grow h) =
        Inr (fst r, (fst (fst (snd r)), fst (snd (fst (snd r))), snd (snd (fst (snd r)))), snd (snd r))"
      by simp
    from pair_edges_Inr [OF this, unfolded grow_spec] assms show False by simp
  qed
  obtain e where pe: "pair_edges (grow h) = Inl e"
  proof (cases "pair_edges (grow h)")
    case (Inl e)
    then show ?thesis by (rule that)
  next
    case (Inr r)
    with no [of r] show ?thesis by simp
  qed
  show ?thesis
  proof (cases "force_newton_pair h = 1")
    case True
    then show ?thesis by (simp add: compute_def grow_newton Let_def)
  next
    case False
    show ?thesis
    proof (cases "list_inum h = atom_nlocal h")
      case neq: False
      have "list_inum (grow h) = list_inum h" "atom_nlocal (grow h) = atom_nlocal h"
        by (simp_all add: grow_def)
      with neq False show ?thesis by (simp add: compute_def grow_newton Let_def)
    next
      case True
      have "list_inum (grow h) = list_inum h" "atom_nlocal (grow h) = atom_nlocal h"
        by (simp_all add: grow_def)
      with True False pe have "compute model eflag vflag h = Inl e" for model eflag vflag
        by (simp add: compute_def grow_newton Let_def bnd_Inl)
      with pair_edges_Inl [OF pe] show ?thesis by blast
    qed
  qed
qed

theorem zero_edges_fatal_witness:
  "filter (within_cutoff (two_atoms\<lparr>cutoff := 1 / 2\<rparr>))
     (neighbor_entries (two_atoms\<lparr>cutoff := 1 / 2\<rparr>) (atom_nlocal (two_atoms\<lparr>cutoff := 1 / 2\<rparr>))) = [] \<and>
   compute full_answer 0 0 (two_atoms\<lparr>cutoff := 1 / 2\<rparr>) = Inl NoEdgesDetected"
proof -
  have a: "filter (within_cutoff (two_atoms\<lparr>cutoff := 1 / 2\<rparr>))
     (neighbor_entries (two_atoms\<lparr>cutoff := 1 / 2\<rparr>) (atom_nlocal (two_atoms\<lparr>cutoff := 1 / 2\<rparr>))) = []"
    by (simp add: model_eval two_atoms_def full_answer_def plain_answer_def)
  have c: "compute full_answer 0 0 (two_atoms\<lparr>cutoff := 1 / 2\<rparr>) = Inl NoEdgesDetected"
    by (simp add: model_eval two_atoms_def full_answer_def plain_answer_def)
  from zero_edges_fatal [OF a] c a show ?thesis by simp
qed

end
